theory Spec2Isabelle
  imports Complex_Main
begin

section \<open>Values of the embedding\<close>

text \<open>
  The module \<^verbatim>\<open>gfft.py\<close> holds the entry point \<^verbatim>\<open>gfft\<close>, the helper
  \<^verbatim>\<open>validate_iterrable_types\<close> and the two direct-summation transforms \<^verbatim>\<open>dft\<close> and
  \<^verbatim>\<open>idft\<close>. Floating-point numbers are idealised as reals throughout (no rounding, no
  infinities or NaN).
\<close>

subsection \<open>Python numbers\<close>

text \<open>
  A Python \<^verbatim>\<open>int\<close> or \<^verbatim>\<open>float\<close>. Arithmetic on two ints stays an int, anything
  else is a float; true division always gives a float and raises on a zero divisor;
  \<^verbatim>\<open>int(x)\<close> truncates towards zero.
\<close>

datatype pynum = PyInt int | PyFloat real

datatype exn =
    TypeError string
  | Exception string
  | IndexError
  | ZeroDivisionError
  | UnboundLocalError
  | Unmodelled string

fun py_real :: "pynum \<Rightarrow> real" where
  "py_real (PyInt i) = real_of_int i"
| "py_real (PyFloat r) = r"

fun py_mul :: "pynum \<Rightarrow> pynum \<Rightarrow> pynum" where
  "py_mul (PyInt a) (PyInt b) = PyInt (a * b)"
| "py_mul a b = PyFloat (py_real a * py_real b)"

fun py_add :: "pynum \<Rightarrow> pynum \<Rightarrow> pynum" where
  "py_add (PyInt a) (PyInt b) = PyInt (a + b)"
| "py_add a b = PyFloat (py_real a + py_real b)"

fun py_sub :: "pynum \<Rightarrow> pynum \<Rightarrow> pynum" where
  "py_sub (PyInt a) (PyInt b) = PyInt (a - b)"
| "py_sub a b = PyFloat (py_real a - py_real b)"

definition py_div :: "pynum \<Rightarrow> pynum \<Rightarrow> exn + pynum" where
  "py_div a b = (if py_real b = 0 then Inl ZeroDivisionError
                 else Inr (PyFloat (py_real a / py_real b)))"

fun py_int :: "pynum \<Rightarrow> int" where
  "py_int (PyInt i) = i"
| "py_int (PyFloat r) = (if 0 \<le> r then \<lfloor>r\<rfloor> else \<lceil>r\<rceil>)"

text \<open>Sequencing of computations that may raise.\<close>

definition ethen :: "exn + 'a \<Rightarrow> ('a \<Rightarrow> exn + 'b) \<Rightarrow> exn + 'b" where
  "ethen m f = (case m of Inl e \<Rightarrow> Inl e | Inr a \<Rightarrow> f a)"

subsection \<open>Arrays\<close>

text \<open>
  A numpy array is a nesting of lists around complex entries: a 0-d array is
  \<open>Scalar c\<close>, an array of \<open>n\<close> sub-arrays along its first axis is \<open>Array [a\<^sub>0, ...]\<close>.
  The element type (\<^verbatim>\<open>dtype\<close>) is not tracked; real entries are complex entries
  with imaginary part zero.
\<close>

datatype ndarray = Scalar complex | Array "ndarray list"

fun shape :: "ndarray \<Rightarrow> nat list" where
  "shape (Scalar c) = []"
| "shape (Array []) = [0]"
| "shape (Array (x # xs)) = Suc (length xs) # shape x"

definition ndim :: "ndarray \<Rightarrow> nat" where
  "ndim a = length (shape a)"

text \<open>A nesting is an array when all sub-arrays along each axis have one shape.\<close>

fun rect :: "ndarray \<Rightarrow> bool" where
  "rect (Scalar c) = True"
| "rect (Array xs) = (\<forall>x \<in> set xs. rect x \<and> shape x = shape (hd xs))"

subsection \<open>The half-length cyclic shift (numpy's fftshift)\<close>

text \<open>
  \<^verbatim>\<open>np.fft.fftshift(x, axes)\<close> is a library function: it rolls \<^verbatim>\<open>x\<close> by
  \<^verbatim>\<open>x.shape[ax] // 2\<close> along each axis of \<^verbatim>\<open>axes\<close> (every axis for
  \<^verbatim>\<open>axes=None\<close>) and returns a new array. \<^verbatim>\<open>np.roll\<close> by \<open>s\<close> along an axis of
  length \<open>n\<close> moves entry \<open>i\<close> to position \<open>(i + s) mod n\<close>. Reading the length of an
  axis the array does not have raises IndexError.
\<close>

definition roll :: "nat \<Rightarrow> 'a list \<Rightarrow> 'a list" where
  "roll s xs =
     (let n = length xs in
      if n = 0 then xs else drop (n - s mod n) xs @ take (n - s mod n) xs)"

fun shift_axis :: "nat \<Rightarrow> ndarray \<Rightarrow> ndarray" where
  "shift_axis k (Scalar c) = Scalar c"
| "shift_axis 0 (Array xs) = Array (roll (length xs div 2) xs)"
| "shift_axis (Suc k) (Array xs) = Array (map (shift_axis k) xs)"

definition fftshift :: "ndarray \<Rightarrow> nat list option \<Rightarrow> exn + ndarray" where
  "fftshift x axes =
     (case axes of
        None \<Rightarrow> Inr (fold shift_axis [0..<ndim x] x)
      | Some axs \<Rightarrow>
          if \<exists>ax \<in> set axs. ndim x \<le> ax then Inl IndexError
          else Inr (fold shift_axis axs x))"


section \<open>The heap of arrays and programs over it\<close>

text \<open>
  Arrays are objects: the caller's input field and coordinate arrays live at addresses
  below \<open>nxt\<close>, and every array a numpy or gridding call returns is placed at the next
  free address. \<open>warnings\<close> collects the messages of \<^verbatim>\<open>warnings.warn\<close>. The
  \<^verbatim>\<open>verbose\<close> flag only prints and is left out.
\<close>

record heap =
  cells :: "nat \<Rightarrow> ndarray"
  nxt :: nat
  warnings :: "string list"

type_synonym 'a prog = "heap \<Rightarrow> (exn + 'a) \<times> heap"

definition ret :: "'a \<Rightarrow> 'a prog" where
  "ret a s = (Inr a, s)"

definition raise :: "exn \<Rightarrow> 'a prog" where
  "raise e s = (Inl e, s)"

definition lift :: "exn + 'a \<Rightarrow> 'a prog" where
  "lift r s = (r, s)"

definition pthen :: "'a prog \<Rightarrow> ('a \<Rightarrow> 'b prog) \<Rightarrow> 'b prog" where
  "pthen m f s = (case m s of (Inl e, s') \<Rightarrow> (Inl e, s') | (Inr a, s') \<Rightarrow> f a s')"

definition warn :: "string \<Rightarrow> unit prog" where
  "warn msg s = (Inr (), s\<lparr>warnings := warnings s @ [msg]\<rparr>)"

definition read_array :: "nat \<Rightarrow> ndarray prog" where
  "read_array a s = (Inr (cells s a), s)"

definition new_array :: "ndarray \<Rightarrow> nat prog" where
  "new_array v s = (Inr (nxt s), s\<lparr>cells := (cells s)(nxt s := v), nxt := Suc (nxt s)\<rparr>)"

definition write_array :: "nat \<Rightarrow> ndarray \<Rightarrow> unit prog" where
  "write_array a v s = (Inr (), s\<lparr>cells := (cells s)(a := v)\<rparr>)"

section \<open>The request\<close>

text \<open>
  \<^verbatim>\<open>in_ax\<close> and \<^verbatim>\<open>out_ax\<close> are a list of coordinate arrays (given by their
  addresses), a list of \<^verbatim>\<open>(dx, nx)\<close> tuples, or the tuple
  \<^verbatim>\<open>([arrays], [(dx, nx), ...])\<close>. The type checks at the head of \<^verbatim>\<open>gfft\<close>
  (lines 147-207) are what these types say; the one check on values among them,
  that the two sides are not both tuples, is kept in \<open>gfft\<close> below.
\<close>

type_synonym grid_spec = "pynum \<times> pynum"

datatype axes =
    Coords "nat list"
  | Grid "grid_spec list"
  | Paired "nat list" "grid_spec list"

fun py_len :: "axes \<Rightarrow> nat" where
  "py_len (Coords cs) = length cs"
| "py_len (Grid gs) = length gs"
| "py_len (Paired cs gs) = 2"

fun is_tuple :: "axes \<Rightarrow> bool" where
  "is_tuple (Paired cs gs) = True"
| "is_tuple ax = False"

text \<open>\<^verbatim>\<open>type(in_ax[0]) == tuple\<close>, for a non-empty list.\<close>

fun first_is_tuple :: "axes \<Rightarrow> bool" where
  "first_is_tuple (Grid gs) = True"
| "first_is_tuple ax = False"

text \<open>A configuration value is one scalar or a list with one entry per axis.\<close>

datatype 'a setting = Single 'a | PerAxis "'a list"

datatype mode = MODE_RR | MODE_IR | MODE_RI | MODE_II

subsection \<open>Mode and dimensionality (lines 214-256)\<close>

definition select_mode :: "nat \<Rightarrow> axes \<Rightarrow> axes \<Rightarrow> (mode \<times> nat) prog" where
  "select_mode inp in_ax out_ax =
     (if py_len in_ax = 0 then
        pthen (read_array inp) (\<lambda>a.
        pthen (if py_len out_ax \<noteq> 0
               then warn (''in_ax is empty, indicating regular to regular '' @
                          ''transformation is requested, but out_ax is not empty. '' @
                          ''Ignoring out_ax and proceeding with regular to regular mode.'')
               else ret ()) (\<lambda>u.
        ret (MODE_RR, ndim a)))
      else if is_tuple in_ax \<or> is_tuple out_ax then
        (if is_tuple out_ax then
           (if py_len out_ax \<noteq> 2
            then raise (TypeError (''Invalid out_ax for '' @ ''irregular to irregular mode.''))
            else ret (MODE_II, py_len in_ax))
         else
           (if py_len in_ax \<noteq> 2
            then raise (TypeError (''Invalid in_ax for '' @ ''irregular to irregular mode.''))
            else ret (MODE_II, py_len out_ax)))
      else
        (if py_len out_ax \<noteq> py_len in_ax
         then raise (TypeError (''For regular to irregular mode, len(in_ax) must '' @
                                ''equal len(out_ax).''))
         else ret (if first_is_tuple in_ax then MODE_RI else MODE_IR, py_len in_ax)))"

definition check_dims :: "mode \<Rightarrow> nat \<Rightarrow> exn + unit" where
  "check_dims m N =
     (if N = 0 then
        Inl (Exception (''Something went wrong in setting the mode and '' @ ''dimensionality.''))
      else if N > 3 \<and> m \<noteq> MODE_RR then
        Inl (Exception (''Gridding has been requested for an unsupported '' @
                        ''number of dimensions!''))
      else Inr ())"

subsection \<open>Per-axis configuration (lines 266-361)\<close>

definition char_lower :: "char \<Rightarrow> char" where
  "char_lower c =
     (if of_char CHR ''A'' \<le> (of_char c :: nat) \<and> (of_char c :: nat) \<le> of_char CHR ''Z''
      then char_of ((of_char c :: nat) + 32) else c)"

definition lower :: "string \<Rightarrow> string" where
  "lower s = map char_lower s"

definition FTM_FFT :: string where "FTM_FFT = ''fft''"
definition FTM_IFFT :: string where "FTM_IFFT = ''ifft''"

record directions =
  do_fft :: bool
  do_ifft :: bool
  fftaxes :: "nat list option"
  ifftaxes :: "nat list option"

fun ftmachine_loop :: "nat \<Rightarrow> string list \<Rightarrow> directions \<Rightarrow> directions" where
  "ftmachine_loop i [] d = d"
| "ftmachine_loop i (m # ms) d =
     ftmachine_loop (Suc i) ms
       (if lower m = FTM_FFT then
          d\<lparr>do_fft := True, fftaxes := map_option (\<lambda>l. l @ [i]) (fftaxes d)\<rparr>
        else if lower m = FTM_IFFT then
          d\<lparr>do_ifft := True, ifftaxes := map_option (\<lambda>l. l @ [i]) (ifftaxes d)\<rparr>
        else d)"

definition no_directions :: directions where
  "no_directions = \<lparr>do_fft = False, do_ifft = False, fftaxes = Some [], ifftaxes = Some []\<rparr>"

definition resolve_ftmachine :: "string setting \<Rightarrow> nat \<Rightarrow> exn + directions" where
  "resolve_ftmachine ftmachine N =
     (case ftmachine of
        Single m \<Rightarrow>
          if lower m = FTM_FFT then Inr (no_directions\<lparr>do_fft := True, fftaxes := None\<rparr>)
          else if lower m = FTM_IFFT then Inr (no_directions\<lparr>do_ifft := True, ifftaxes := None\<rparr>)
          else Inr no_directions
      | PerAxis ms \<Rightarrow>
          if length ms \<noteq> N then Inl (Exception ''ftmachine is a list with invalid length'')
          else Inr (ftmachine_loop 0 ms no_directions))"

text \<open>The test of lines 293-294 that sends the request to the shift-only path.\<close>

definition nothing_requested :: "directions \<Rightarrow> bool" where
  "nothing_requested d =
     ((do_fft d = False \<and> do_ifft d = False) \<or> (fftaxes d = Some [] \<and> ifftaxes d = Some []))"

fun zero_center_loop :: "nat \<Rightarrow> bool list \<Rightarrow> bool \<times> nat list \<Rightarrow> bool \<times> nat list" where
  "zero_center_loop i [] acc = acc"
| "zero_center_loop i (z # zs) (do_shift, shift_axes) =
     zero_center_loop (Suc i) zs
       (if z then (True, shift_axes @ [i]) else (do_shift, shift_axes))"

text \<open>
  Lines 309-320 for \<^verbatim>\<open>in_zero_center\<close> and lines 322-333 for
  \<^verbatim>\<open>out_zero_center\<close> are the same code up to the message; the result is
  \<^verbatim>\<open>(do_preshift, preshift_axes)\<close>, respectively
  \<^verbatim>\<open>(do_postshift, postshift_axes)\<close>, where \<open>None\<close> is Python's \<^verbatim>\<open>None\<close>: all axes.
\<close>

definition resolve_zero_center ::
  "string \<Rightarrow> bool setting \<Rightarrow> nat \<Rightarrow> exn + (bool \<times> nat list option)" where
  "resolve_zero_center msg zero_center N =
     (case zero_center of
        Single z \<Rightarrow> if z then Inr (True, None) else Inr (False, Some [])
      | PerAxis zs \<Rightarrow>
          if length zs \<noteq> N then Inl (Exception msg)
          else (case zero_center_loop 0 zs (False, []) of
                  (do_shift, shift_axes) \<Rightarrow> Inr (do_shift, Some shift_axes)))"

definition resolve_hermitian :: "bool setting \<Rightarrow> nat \<Rightarrow> exn + bool list" where
  "resolve_hermitian enforce_hermitian_symmetry N =
     ethen
       (case enforce_hermitian_symmetry of
          Single h \<Rightarrow> if h then Inr (replicate N True) else Inr (replicate N False)
        | PerAxis hs \<Rightarrow>
            if length hs \<noteq> N
            then Inl (Exception (''enforce_hermitian_symmetry is a list with '' @ ''invalid length''))
            else Inr (map (\<lambda>h. if h then True else False) hs))
       (\<lambda>hermitianized_axes.
          if length hermitianized_axes \<noteq> N
          then Inl (Exception (''Something went wrong when setting up the '' @
                               ''hermitianized_axes list!''))
          else Inr hermitianized_axes)"

record config = directions +
  do_preshift :: bool
  do_postshift :: bool
  preshift_axes :: "nat list option"
  postshift_axes :: "nat list option"
  hermitianized_axes :: "bool list"


section \<open>Collaborators outside this module\<close>

text \<open>
  The dense transform, array allocation, slicing and division are numpy's, and the
  convolutional resampling engine is the module \<^verbatim>\<open>gridding\<close>, which is imported and
  not part of this file. They are parameters of the embedding. Each takes array values
  and yields a new array value or raises; none modifies an argument, except the
  slice assignment, which replaces the contents of its target. A call to the
  \<^verbatim>\<open>gridding\<close> module is given by the function's name and the list of its positional
  arguments.
\<close>

datatype pyval = VNum pynum | VBool bool | VArr ndarray | VTuple pynum pynum

record externals =
  fftn :: "ndarray \<Rightarrow> nat list option \<Rightarrow> exn + ndarray"
  ifftn :: "ndarray \<Rightarrow> nat list option \<Rightarrow> exn + ndarray"
  np_zeros :: "pynum list \<Rightarrow> exn + ndarray"
  np_getslice :: "ndarray \<Rightarrow> (pynum \<times> pynum) list \<Rightarrow> exn + ndarray"
  np_setslice :: "ndarray \<Rightarrow> (pynum \<times> pynum) list \<Rightarrow> ndarray \<Rightarrow> exn + ndarray"
  np_divide :: "ndarray \<Rightarrow> ndarray \<Rightarrow> exn + ndarray"
  gridding :: "string \<Rightarrow> pyval list \<Rightarrow> exn + ndarray"

text \<open>An argument of a call: a number, a flag, a tuple, or the address of an array.\<close>

datatype parg = ANum pynum | ABool bool | AArr nat | ATuple pynum pynum

fun arg_value :: "heap \<Rightarrow> parg \<Rightarrow> pyval" where
  "arg_value s (ANum n) = VNum n"
| "arg_value s (ABool b) = VBool b"
| "arg_value s (AArr a) = VArr (cells s a)"
| "arg_value s (ATuple a b) = VTuple a b"

definition call_gridding :: "externals \<Rightarrow> string \<Rightarrow> parg list \<Rightarrow> nat prog" where
  "call_gridding E name args =
     (\<lambda>s. pthen (lift (gridding E name (map (arg_value s) args))) new_array s)"

definition call_fftshift :: "nat \<Rightarrow> nat list option \<Rightarrow> nat prog" where
  "call_fftshift a axes = pthen (read_array a) (\<lambda>x. pthen (lift (fftshift x axes)) new_array)"

definition call_fftn :: "externals \<Rightarrow> nat \<Rightarrow> nat list option \<Rightarrow> nat prog" where
  "call_fftn E a axes = pthen (read_array a) (\<lambda>x. pthen (lift (fftn E x axes)) new_array)"

definition call_ifftn :: "externals \<Rightarrow> nat \<Rightarrow> nat list option \<Rightarrow> nat prog" where
  "call_ifftn E a axes = pthen (read_array a) (\<lambda>x. pthen (lift (ifftn E x axes)) new_array)"

text \<open>\<^verbatim>\<open>a.copy()\<close> and \<^verbatim>\<open>np.array(a, dtype=complex)\<close>: a new array with the entries of \<^verbatim>\<open>a\<close>.\<close>

definition call_copy :: "nat \<Rightarrow> nat prog" where
  "call_copy a = pthen (read_array a) new_array"

definition call_zeros :: "externals \<Rightarrow> pynum list \<Rightarrow> nat prog" where
  "call_zeros E dims = pthen (lift (np_zeros E dims)) new_array"

definition call_getslice :: "externals \<Rightarrow> nat \<Rightarrow> (pynum \<times> pynum) list \<Rightarrow> nat prog" where
  "call_getslice E a sl = pthen (read_array a) (\<lambda>x. pthen (lift (np_getslice E x sl)) new_array)"

definition call_setslice :: "externals \<Rightarrow> nat \<Rightarrow> (pynum \<times> pynum) list \<Rightarrow> nat \<Rightarrow> unit prog" where
  "call_setslice E target sl a =
     pthen (read_array target) (\<lambda>t.
     pthen (read_array a) (\<lambda>x.
     pthen (lift (np_setslice E t sl x)) (write_array target)))"

definition call_divide :: "externals \<Rightarrow> nat \<Rightarrow> nat \<Rightarrow> nat prog" where
  "call_divide E a b =
     pthen (read_array a) (\<lambda>x.
     pthen (read_array b) (\<lambda>y.
     pthen (lift (np_divide E x y)) new_array))"

section \<open>The pipelines\<close>

subsection \<open>Shift, transform, shift\<close>

text \<open>
  Lines 404-416 (MODE_RR), 540-553 (MODE_IR), 784-798 (MODE_RI) and 1101-1115
  (MODE_II) are the same statements on the array at hand.
\<close>

definition shift_transform_shift :: "externals \<Rightarrow> config \<Rightarrow> nat \<Rightarrow> nat prog" where
  "shift_transform_shift E c inp =
     pthen (if do_preshift c then call_fftshift inp (preshift_axes c) else ret inp) (\<lambda>inp.
     pthen (if do_fft c then call_fftn E inp (fftaxes c) else call_copy inp) (\<lambda>out.
     pthen (if do_ifft c then call_ifftn E out (ifftaxes c) else ret out) (\<lambda>out.
     pthen (if do_postshift c then call_fftshift out (postshift_axes c) else ret out) (\<lambda>out.
     ret out))))"

definition rr_transform :: "externals \<Rightarrow> config \<Rightarrow> nat \<Rightarrow> nat prog" where
  "rr_transform E c inp = shift_transform_shift E c inp"

subsection \<open>Grid parameters of one axis\<close>

text \<open>
  For axis 0 the code names these \<^verbatim>\<open>dx, Nx, xmin, du, Nu, umin\<close>, for axis 1
  \<^verbatim>\<open>dy, Ny, ymin, dv, Nv, vmin\<close> and for axis 2 \<^verbatim>\<open>dz, Nz, zmin, dw, Nw, wmin\<close>.
\<close>

record axis_grid =
  d_fin :: pynum
  n_fin :: pynum
  min_fin :: pynum
  d_work :: pynum
  n_work :: pynum
  min_work :: pynum

text \<open>\<^verbatim>\<open>-0.5*N*d\<close>\<close>

definition centred_origin :: "pynum \<Rightarrow> pynum \<Rightarrow> pynum" where
  "centred_origin n d = py_mul (py_mul (PyFloat (- (1 / 2))) n) d"

text \<open>\<^verbatim>\<open>1./dx/Nx/alpha\<close>\<close>

definition work_spacing :: "pynum \<Rightarrow> pynum \<Rightarrow> pynum \<Rightarrow> exn + pynum" where
  "work_spacing dx nx alpha =
     ethen (py_div (PyFloat 1) dx) (\<lambda>q. ethen (py_div q nx) (\<lambda>q. py_div q alpha))"

text \<open>
  The block that sets the six variables of one axis from its \<^verbatim>\<open>(dx, Nx)\<close> tuple.
  \<open>size_expr\<close> is the expression assigned to the working-grid size, and the two flags say
  whether the \<^verbatim>\<open>if\<close> that moves \<^verbatim>\<open>xmin\<close>, respectively \<^verbatim>\<open>umin\<close>, away from \<^verbatim>\<open>0.\<close> fires.
\<close>

definition axis_block ::
  "(pynum \<Rightarrow> pynum \<Rightarrow> pynum) \<Rightarrow> bool \<Rightarrow> bool \<Rightarrow> grid_spec \<Rightarrow> pynum \<Rightarrow> exn + axis_grid" where
  "axis_block size_expr fin_centred work_centred spec alpha =
     (case spec of (dx, nx) \<Rightarrow>
        ethen (work_spacing dx nx alpha) (\<lambda>du.
          let nu = size_expr alpha nx in
          Inr \<lparr>d_fin = dx, n_fin = nx,
               min_fin = (if fin_centred then centred_origin nx dx else PyFloat 0),
               d_work = du, n_work = nu,
               min_work = (if work_centred then centred_origin nu du else PyFloat 0)\<rparr>))"

text \<open>\<^verbatim>\<open>int(alpha*Nx)\<close> and the bare product \<^verbatim>\<open>alpha*Ny\<close>.\<close>

definition size_int :: "pynum \<Rightarrow> pynum \<Rightarrow> pynum" where
  "size_int alpha nx = PyInt (py_int (py_mul alpha nx))"

definition size_product :: "pynum \<Rightarrow> pynum \<Rightarrow> pynum" where
  "size_product alpha ny = py_mul alpha ny"

text \<open>
  The nested test on a shift for axis \<open>k\<close> in the 2-D and 3-D branches:
  \<^verbatim>\<open>if do_shift: if axes == None: ... else: if axes.count(k) > 0: ...\<close>
\<close>

definition shifted :: "bool \<Rightarrow> nat list option \<Rightarrow> nat \<Rightarrow> bool" where
  "shifted do_shift shift_axes k =
     (do_shift \<and> (case shift_axes of None \<Rightarrow> True | Some axs \<Rightarrow> count_list axs k > 0))"

text \<open>
  \<^verbatim>\<open>ax[k]\<close> as a \<^verbatim>\<open>(dx, Nx)\<close> tuple, and \<^verbatim>\<open>ax[k]\<close> as an argument of a gridding
  call. Where the code expects the tuples and the caller gave coordinate arrays, the
  code would read two entries of an array as \<^verbatim>\<open>dx\<close> and \<^verbatim>\<open>Nx\<close>; such a request is
  outside the documented interface and the embedding stops at it.
\<close>

definition spec_at :: "axes \<Rightarrow> nat \<Rightarrow> exn + grid_spec" where
  "spec_at ax k =
     (case ax of
        Grid gs \<Rightarrow> if k < length gs then Inr (gs ! k) else Inl IndexError
      | Coords cs \<Rightarrow>
          Inl (Unmodelled ''entries of a coordinate array read as (dx, nx)'')
      | Paired cs gs \<Rightarrow> Inl (Unmodelled ''not reached: no mode indexes a paired side''))"

definition axis_arg :: "axes \<Rightarrow> nat \<Rightarrow> exn + parg" where
  "axis_arg ax k =
     (case ax of
        Coords cs \<Rightarrow> if k < length cs then Inr (AArr (cs ! k)) else Inl IndexError
      | Grid gs \<Rightarrow>
          if k < length gs then Inr (ATuple (fst (gs ! k)) (snd (gs ! k))) else Inl IndexError
      | Paired cs gs \<Rightarrow> Inl (Unmodelled ''not reached: no mode indexes a paired side''))"

definition bool_at :: "bool list \<Rightarrow> nat \<Rightarrow> exn + bool" where
  "bool_at hs k = (if k < length hs then Inr (hs ! k) else Inl IndexError)"

text \<open>\<^verbatim>\<open>int(0.5*Nx*(alpha-1))\<close>\<close>

definition tndx :: "pynum \<Rightarrow> pynum \<Rightarrow> int" where
  "tndx nx alpha = py_int (py_mul (py_mul (PyFloat (1 / 2)) nx) (py_sub alpha (PyInt 1)))"


text \<open>
  The variables of the one, two or three axes. The branches \<^verbatim>\<open>if N == 1: ... elif
  N == 2: ... elif N == 3: ...\<close> that follow the first one in each mode are a case
  distinction on this value. For any other \<open>N\<close> no branch assigns, and the first
  use of a variable raises UnboundLocalError.
\<close>

datatype grids = G1 axis_grid | G2 axis_grid axis_grid | G3 axis_grid axis_grid axis_grid

definition work_args :: "axis_grid \<Rightarrow> parg list" where
  "work_args g = [ANum (d_work g), ANum (n_work g), ANum (min_work g)]"

definition fin_args :: "axis_grid \<Rightarrow> parg list" where
  "fin_args g = [ANum (d_fin g), ANum (n_fin g), ANum (min_fin g)]"

subsection \<open>MODE_IR (lines 427-613)\<close>

definition ir_grids :: "config \<Rightarrow> nat \<Rightarrow> axes \<Rightarrow> pynum \<Rightarrow> exn + grids" where
  "ir_grids c N out_ax alpha =
     (let post = shifted (do_postshift c) (postshift_axes c);
          pre = shifted (do_preshift c) (preshift_axes c) in
      if N = 1 then
        ethen (spec_at out_ax 0) (\<lambda>s0.
        ethen (axis_block size_int (do_postshift c) (do_preshift c) s0 alpha) (\<lambda>g0.
        Inr (G1 g0)))
      else if N = 2 then
        ethen (spec_at out_ax 0) (\<lambda>s0.
        ethen (axis_block size_int (post 0) (pre 0) s0 alpha) (\<lambda>g0.
        ethen (spec_at out_ax 1) (\<lambda>s1.
        ethen (axis_block size_int (post 1) (pre 1) s1 alpha) (\<lambda>g1.
        Inr (G2 g0 g1)))))
      else if N = 3 then
        ethen (spec_at out_ax 0) (\<lambda>s0.
        ethen (axis_block size_int (post 0) (pre 0) s0 alpha) (\<lambda>g0.
        ethen (spec_at out_ax 1) (\<lambda>s1.
        ethen (axis_block size_int (post 1) (pre 1) s1 alpha) (\<lambda>g1.
        ethen (spec_at out_ax 2) (\<lambda>s2.
        ethen (axis_block size_int (post 2) (pre 2) s2 alpha) (\<lambda>g2.
        Inr (G3 g0 g1 g2)))))))
      else Inl UnboundLocalError)"

text \<open>The gridding call of lines 445, 482 and 535: the function and its positional arguments.\<close>

definition ir_grid_call ::
  "axes \<Rightarrow> nat \<Rightarrow> grids \<Rightarrow> pynum \<Rightarrow> int \<Rightarrow> bool list \<Rightarrow> exn + (string \<times> parg list)" where
  "ir_grid_call in_ax inp gs alpha W herm =
     (case gs of
        G1 g0 \<Rightarrow>
          ethen (axis_arg in_ax 0) (\<lambda>x.
          ethen (bool_at herm 0) (\<lambda>h0.
          Inr (''grid_1d'',
               [x, AArr inp] @ work_args g0 @ [ANum alpha, ANum (PyInt W), ABool h0])))
      | G2 g0 g1 \<Rightarrow>
          ethen (axis_arg in_ax 0) (\<lambda>x.
          ethen (axis_arg in_ax 1) (\<lambda>y.
          ethen (bool_at herm 0) (\<lambda>h0.
          ethen (bool_at herm 1) (\<lambda>h1.
          Inr (''grid_2d'',
               [x, y, AArr inp] @ work_args g0 @ work_args g1 @
               [ANum alpha, ANum (PyInt W), ABool h0, ABool h1])))))
      | G3 g0 g1 g2 \<Rightarrow>
          ethen (axis_arg in_ax 0) (\<lambda>x.
          ethen (axis_arg in_ax 1) (\<lambda>y.
          ethen (axis_arg in_ax 2) (\<lambda>z.
          ethen (bool_at herm 0) (\<lambda>h0.
          ethen (bool_at herm 1) (\<lambda>h1.
          ethen (bool_at herm 2) (\<lambda>h2.
          Inr (''grid_3d'',
               [x, y, z, AArr inp] @ work_args g0 @ work_args g1 @ work_args g2 @
               [ANum alpha, ANum (PyInt W), ABool h0, ABool h1, ABool h2]))))))))"

text \<open>The slice of lines 559-561, 580 and 605.\<close>

definition crop_from :: "bool \<Rightarrow> axis_grid \<Rightarrow> pynum \<Rightarrow> pynum" where
  "crop_from is_shifted g alpha = (if is_shifted then PyInt (tndx (n_fin g) alpha) else PyInt 0)"

definition ir_crop :: "config \<Rightarrow> grids \<Rightarrow> pynum \<Rightarrow> (pynum \<times> pynum) list" where
  "ir_crop c gs alpha =
     (let post = shifted (do_postshift c) (postshift_axes c) in
      case gs of
        G1 g0 \<Rightarrow>
          (if do_postshift c
           then [(PyInt (tndx (n_fin g0) alpha), py_add (PyInt (tndx (n_fin g0) alpha)) (n_fin g0))]
           else [(PyInt 0, n_fin g0)])
      | G2 g0 g1 \<Rightarrow>
          (let xl = crop_from (post 0) g0 alpha; yl = crop_from (post 1) g1 alpha in
           [(PyInt (py_int xl), PyInt (py_int (py_add xl (n_fin g0)))),
            (PyInt (py_int yl), PyInt (py_int (py_add yl (n_fin g1))))])
      | G3 g0 g1 g2 \<Rightarrow>
          (let xl = crop_from (post 0) g0 alpha; yl = crop_from (post 1) g1 alpha;
               zl = crop_from (post 2) g2 alpha in
           [(xl, py_add xl (n_fin g0)), (yl, py_add yl (n_fin g1)), (zl, py_add zl (n_fin g2))]))"

text \<open>
  \<^verbatim>\<open>get_grid_corr_1d(dx, Nx, xmin, du, W, alpha)\<close> and its 2-D and 3-D forms, as
  MODE_IR and MODE_RI call them.
\<close>

definition grid_corr_call :: "grids \<Rightarrow> pynum \<Rightarrow> int \<Rightarrow> string \<times> parg list" where
  "grid_corr_call gs alpha W =
     (case gs of
        G1 g0 \<Rightarrow>
          (''get_grid_corr_1d'', fin_args g0 @ [ANum (d_work g0), ANum (PyInt W), ANum alpha])
      | G2 g0 g1 \<Rightarrow>
          (''get_grid_corr_2d'',
           fin_args g0 @ fin_args g1 @
           [ANum (d_work g0), ANum (d_work g1), ANum (PyInt W), ANum alpha])
      | G3 g0 g1 g2 \<Rightarrow>
          (''get_grid_corr_3d'',
           fin_args g0 @ fin_args g1 @ fin_args g2 @
           [ANum (d_work g0), ANum (d_work g1), ANum (d_work g2), ANum (PyInt W), ANum alpha]))"

definition ir_transform ::
  "externals \<Rightarrow> config \<Rightarrow> nat \<Rightarrow> nat \<Rightarrow> axes \<Rightarrow> axes \<Rightarrow> int \<Rightarrow> pynum \<Rightarrow> nat prog" where
  "ir_transform E c N inp in_ax out_ax W alpha =
     pthen (call_copy inp) (\<lambda>inp.
     pthen (lift (ir_grids c N out_ax alpha)) (\<lambda>gs.
     pthen (lift (ir_grid_call in_ax inp gs alpha W (hermitianized_axes c))) (\<lambda>call.
     pthen (call_gridding E (fst call) (snd call)) (\<lambda>inp_grid.
     pthen (shift_transform_shift E c inp_grid) (\<lambda>out.
     pthen (call_getslice E out (ir_crop c gs alpha)) (\<lambda>out.
     pthen (call_gridding E (fst (grid_corr_call gs alpha W)) (snd (grid_corr_call gs alpha W)))
       (\<lambda>gc.
     call_divide E out gc)))))))"

subsection \<open>MODE_RI (lines 618-817)\<close>

definition ri_grids :: "config \<Rightarrow> nat \<Rightarrow> axes \<Rightarrow> pynum \<Rightarrow> exn + grids" where
  "ri_grids c N in_ax alpha =
     (let post = shifted (do_postshift c) (postshift_axes c);
          pre = shifted (do_preshift c) (preshift_axes c) in
      if N = 1 then
        ethen (spec_at in_ax 0) (\<lambda>s0.
        ethen (axis_block size_int (do_preshift c) (do_postshift c) s0 alpha) (\<lambda>g0.
        Inr (G1 g0)))
      else if N = 2 then
        ethen (spec_at in_ax 0) (\<lambda>s0.
        ethen (axis_block size_int (pre 0) (post 0) s0 alpha) (\<lambda>g0.
        ethen (spec_at in_ax 1) (\<lambda>s1.
        ethen (axis_block size_int (pre 1) (post 1) s1 alpha) (\<lambda>g1.
        Inr (G2 g0 g1)))))
      else if N = 3 then
        ethen (spec_at in_ax 0) (\<lambda>s0.
        ethen (axis_block size_int (pre 0) (post 0) s0 alpha) (\<lambda>g0.
        ethen (spec_at in_ax 1) (\<lambda>s1.
        ethen (axis_block size_int (pre 1) (post 1) s1 alpha) (\<lambda>g1.
        ethen (spec_at in_ax 2) (\<lambda>s2.
        ethen (axis_block size_int (pre 2) (post 2) s2 alpha) (\<lambda>g2.
        Inr (G3 g0 g1 g2)))))))
      else Inl UnboundLocalError)"

text \<open>\<^verbatim>\<open>np.zeros(Nu)\<close>, \<^verbatim>\<open>np.zeros((Nu,Nv))\<close>, \<^verbatim>\<open>np.zeros((Nu,Nv,Nw))\<close>\<close>

definition ri_zeros :: "grids \<Rightarrow> pynum list" where
  "ri_zeros gs =
     (case gs of
        G1 g0 \<Rightarrow> [n_work g0]
      | G2 g0 g1 \<Rightarrow> [n_work g0, n_work g1]
      | G3 g0 g1 g2 \<Rightarrow> [n_work g0, n_work g1, n_work g2])"

text \<open>The target \<^verbatim>\<open>[xl:xl+Nx, ...]\<close> of the assignment of lines 730, 753 and 781.\<close>

definition ri_pad :: "config \<Rightarrow> grids \<Rightarrow> pynum \<Rightarrow> (pynum \<times> pynum) list" where
  "ri_pad c gs alpha =
     (let pre = shifted (do_preshift c) (preshift_axes c) in
      case gs of
        G1 g0 \<Rightarrow>
          (let xl = crop_from (do_preshift c) g0 alpha in [(xl, py_add xl (n_fin g0))])
      | G2 g0 g1 \<Rightarrow>
          (let xl = crop_from (pre 0) g0 alpha; yl = crop_from (pre 1) g1 alpha in
           [(xl, py_add xl (n_fin g0)), (yl, py_add yl (n_fin g1))])
      | G3 g0 g1 g2 \<Rightarrow>
          (let xl = crop_from (pre 0) g0 alpha; yl = crop_from (pre 1) g1 alpha;
               zl = crop_from (pre 2) g2 alpha in
           [(xl, py_add xl (n_fin g0)), (yl, py_add yl (n_fin g1)), (zl, py_add zl (n_fin g2))]))"

text \<open>The degridding call of lines 802, 806 and 810.\<close>

definition ri_degrid_call ::
  "axes \<Rightarrow> nat \<Rightarrow> grids \<Rightarrow> pynum \<Rightarrow> int \<Rightarrow> exn + (string \<times> parg list)" where
  "ri_degrid_call out_ax out gs alpha W =
     (case gs of
        G1 g0 \<Rightarrow>
          ethen (axis_arg out_ax 0) (\<lambda>x.
          Inr (''degrid_1d'', [x, AArr out] @ work_args g0 @ [ANum alpha, ANum (PyInt W)]))
      | G2 g0 g1 \<Rightarrow>
          ethen (axis_arg out_ax 0) (\<lambda>x.
          ethen (axis_arg out_ax 1) (\<lambda>y.
          Inr (''degrid_2d'',
               [x, y, AArr out] @ work_args g0 @ work_args g1 @ [ANum alpha, ANum (PyInt W)])))
      | G3 g0 g1 g2 \<Rightarrow>
          ethen (axis_arg out_ax 0) (\<lambda>x.
          ethen (axis_arg out_ax 1) (\<lambda>y.
          ethen (axis_arg out_ax 2) (\<lambda>z.
          Inr (''degrid_3d'',
               [x, y, z, AArr out] @ work_args g0 @ work_args g1 @ work_args g2 @
               [ANum alpha, ANum (PyInt W)])))))"

definition ri_transform ::
  "externals \<Rightarrow> config \<Rightarrow> nat \<Rightarrow> nat \<Rightarrow> axes \<Rightarrow> axes \<Rightarrow> int \<Rightarrow> pynum \<Rightarrow> nat prog" where
  "ri_transform E c N inp in_ax out_ax W alpha =
     pthen (call_copy inp) (\<lambda>inp.
     pthen (lift (ri_grids c N in_ax alpha)) (\<lambda>gs.
     pthen (call_gridding E (fst (grid_corr_call gs alpha W)) (snd (grid_corr_call gs alpha W)))
       (\<lambda>gc.
     pthen (call_divide E inp gc) (\<lambda>inp.
     pthen (call_zeros E (ri_zeros gs)) (\<lambda>inp_oversam.
     pthen (call_setslice E inp_oversam (ri_pad c gs alpha) inp) (\<lambda>u.
     pthen (shift_transform_shift E c inp_oversam) (\<lambda>out.
     pthen (lift (ri_degrid_call out_ax out gs alpha W)) (\<lambda>call.
     call_gridding E (fst call) (snd call)))))))))"


subsection \<open>MODE_II (lines 822-1154)\<close>

text \<open>\<^verbatim>\<open>int(Nx*alpha)\<close> of line 923 and \<^verbatim>\<open>alpha**2\<close>.\<close>

definition size_int_swapped :: "pynum \<Rightarrow> pynum \<Rightarrow> pynum" where
  "size_int_swapped alpha nx = PyInt (py_int (py_mul nx alpha))"

fun py_sq :: "pynum \<Rightarrow> pynum" where
  "py_sq (PyInt a) = PyInt (a * a)"
| "py_sq (PyFloat r) = PyFloat (r * r)"

text \<open>The grid variables of lines 916-1014, from the tuples \<^verbatim>\<open>out_ax[1]\<close>.\<close>

definition ii_grids :: "config \<Rightarrow> nat \<Rightarrow> grid_spec list \<Rightarrow> pynum \<Rightarrow> exn + grids" where
  "ii_grids c N specs alpha =
     (let post = shifted (do_postshift c) (postshift_axes c);
          pre = shifted (do_preshift c) (preshift_axes c) in
      if N = 1 then
        ethen (spec_at (Grid specs) 0) (\<lambda>s0.
        ethen (axis_block size_int_swapped (do_postshift c) (do_preshift c) s0 alpha) (\<lambda>g0.
        Inr (G1 g0)))
      else if N = 2 then
        ethen (spec_at (Grid specs) 0) (\<lambda>s0.
        ethen (axis_block size_int (post 0) (pre 0) s0 alpha) (\<lambda>g0.
        ethen (spec_at (Grid specs) 1) (\<lambda>s1.
        ethen (axis_block size_product (post 1) (pre 1) s1 alpha) (\<lambda>g1.
        Inr (G2 g0 g1)))))
      else if N = 3 then
        ethen (spec_at (Grid specs) 0) (\<lambda>s0.
        ethen (axis_block size_int (post 0) (pre 0) s0 alpha) (\<lambda>g0.
        ethen (spec_at (Grid specs) 1) (\<lambda>s1.
        ethen (axis_block size_product (post 1) (pre 1) s1 alpha) (\<lambda>g1.
        ethen (spec_at (Grid specs) 2) (\<lambda>s2.
        ethen (axis_block size_product (post 2) (pre 2) s2 alpha) (\<lambda>g2.
        Inr (G3 g0 g1 g2)))))))
      else Inl UnboundLocalError)"

text \<open>The gridding call of lines 1021, 1024 and 1028.\<close>

definition ii_grid_call ::
  "axes \<Rightarrow> nat \<Rightarrow> grids \<Rightarrow> pynum \<Rightarrow> int \<Rightarrow> bool list \<Rightarrow> exn + (string \<times> parg list)" where
  "ii_grid_call in_ax inp gs alpha W herm =
     (case gs of
        G1 g0 \<Rightarrow>
          ethen (axis_arg in_ax 0) (\<lambda>x.
          ethen (bool_at herm 0) (\<lambda>h0.
          Inr (''grid_1d'',
               [x, AArr inp] @ work_args g0 @ [ANum alpha, ANum (PyInt W), ABool h0])))
      | G2 g0 g1 \<Rightarrow>
          ethen (axis_arg in_ax 0) (\<lambda>x.
          ethen (axis_arg in_ax 1) (\<lambda>y.
          ethen (bool_at herm 0) (\<lambda>h0.
          ethen (bool_at herm 1) (\<lambda>h1.
          Inr (''grid_2d'',
               [x, y, AArr inp] @ work_args g0 @ work_args g1 @
               [ANum (PyInt W), ANum alpha, ABool h0, ABool h1])))))
      | G3 g0 g1 g2 \<Rightarrow>
          ethen (axis_arg in_ax 0) (\<lambda>x.
          ethen (axis_arg in_ax 1) (\<lambda>y.
          ethen (axis_arg in_ax 2) (\<lambda>z.
          ethen (bool_at herm 0) (\<lambda>h0.
          ethen (bool_at herm 1) (\<lambda>h1.
          ethen (bool_at herm 2) (\<lambda>h2.
          Inr (''grid_3d'',
               [x, y, z, AArr inp] @ work_args g0 @ work_args g1 @ work_args g2 @
               [ANum (PyInt W), ANum alpha, ABool h0, ABool h1, ABool h2]))))))))"

text \<open>\<^verbatim>\<open>dx/alpha\<close>, and the three arguments \<^verbatim>\<open>dx/alpha, alpha**2*Nx, alpha*xmin\<close>.\<close>

definition fine_spacing :: "axis_grid \<Rightarrow> pynum \<Rightarrow> exn + parg" where
  "fine_spacing g alpha = ethen (py_div (d_fin g) alpha) (\<lambda>q. Inr (ANum q))"

definition fine_args :: "axis_grid \<Rightarrow> pynum \<Rightarrow> exn + parg list" where
  "fine_args g alpha =
     ethen (fine_spacing g alpha) (\<lambda>q.
     Inr [q, ANum (py_mul (py_sq alpha) (n_fin g)), ANum (py_mul alpha (min_fin g))])"

text \<open>The correction of the gridded input, lines 1035, 1049 and 1072.\<close>

definition ii_degrid_corr_call :: "grids \<Rightarrow> pynum \<Rightarrow> int \<Rightarrow> exn + (string \<times> parg list)" where
  "ii_degrid_corr_call gs alpha W =
     (case gs of
        G1 g0 \<Rightarrow>
          ethen (fine_spacing g0 alpha) (\<lambda>qx.
          Inr (''get_grid_corr_1d'', work_args g0 @ [qx, ANum (PyInt W), ANum alpha]))
      | G2 g0 g1 \<Rightarrow>
          ethen (fine_spacing g0 alpha) (\<lambda>qx.
          ethen (fine_spacing g1 alpha) (\<lambda>qy.
          Inr (''get_grid_corr_2d'',
               work_args g0 @ work_args g1 @ [qx, qy, ANum (PyInt W), ANum alpha])))
      | G3 g0 g1 g2 \<Rightarrow>
          ethen (fine_spacing g0 alpha) (\<lambda>qx.
          ethen (fine_spacing g1 alpha) (\<lambda>qy.
          ethen (fine_spacing g2 alpha) (\<lambda>qz.
          Inr (''get_grid_corr_3d'',
               work_args g0 @ work_args g1 @ work_args g2 @
               [qx, qy, qz, ANum (PyInt W), ANum alpha])))))"

text \<open>\<^verbatim>\<open>np.zeros(Nu*alpha)\<close>, \<^verbatim>\<open>np.zeros((Nu*alpha, Nv*alpha))\<close>, ...\<close>

definition ii_zeros :: "grids \<Rightarrow> pynum \<Rightarrow> pynum list" where
  "ii_zeros gs alpha =
     (case gs of
        G1 g0 \<Rightarrow> [py_mul (n_work g0) alpha]
      | G2 g0 g1 \<Rightarrow> [py_mul (n_work g0) alpha, py_mul (n_work g1) alpha]
      | G3 g0 g1 g2 \<Rightarrow>
          [py_mul (n_work g0) alpha, py_mul (n_work g1) alpha, py_mul (n_work g2) alpha])"

text \<open>\<^verbatim>\<open>ul = 0\<close>, or \<^verbatim>\<open>ul = 0.5*Nu*(alpha-1.)\<close> when the axis is shifted.\<close>

definition pad_from :: "bool \<Rightarrow> axis_grid \<Rightarrow> pynum \<Rightarrow> pynum" where
  "pad_from is_shifted g alpha =
     (if is_shifted
      then py_mul (py_mul (PyFloat (1 / 2)) (n_work g)) (py_sub alpha (PyFloat 1))
      else PyInt 0)"

definition ii_pad :: "config \<Rightarrow> grids \<Rightarrow> pynum \<Rightarrow> (pynum \<times> pynum) list" where
  "ii_pad c gs alpha =
     (let pre = shifted (do_preshift c) (preshift_axes c) in
      case gs of
        G1 g0 \<Rightarrow>
          (let ul = pad_from (do_preshift c) g0 alpha in [(ul, py_add ul (n_work g0))])
      | G2 g0 g1 \<Rightarrow>
          (let ul = pad_from (pre 0) g0 alpha; vl = pad_from (pre 1) g1 alpha in
           [(ul, py_add ul (n_work g0)), (vl, py_add vl (n_work g1))])
      | G3 g0 g1 g2 \<Rightarrow>
          (let ul = pad_from (pre 0) g0 alpha; vl = pad_from (pre 1) g1 alpha;
               wl = pad_from (pre 2) g2 alpha in
           [(ul, py_add ul (n_work g0)), (vl, py_add vl (n_work g1)),
            (wl, py_add wl (n_work g2))]))"

text \<open>The correction of the transformed grid, lines 1122, 1126 and 1131.\<close>

definition ii_grid_corr_call :: "grids \<Rightarrow> pynum \<Rightarrow> int \<Rightarrow> exn + (string \<times> parg list)" where
  "ii_grid_corr_call gs alpha W =
     (case gs of
        G1 g0 \<Rightarrow>
          ethen (fine_args g0 alpha) (\<lambda>fx.
          Inr (''get_grid_corr_1d'', fx @ [ANum (d_work g0), ANum (PyInt W), ANum alpha]))
      | G2 g0 g1 \<Rightarrow>
          ethen (fine_args g0 alpha) (\<lambda>fx.
          ethen (fine_args g1 alpha) (\<lambda>fy.
          Inr (''get_grid_corr_2d'',
               fx @ fy @ [ANum (d_work g0), ANum (d_work g1), ANum (PyInt W), ANum alpha])))
      | G3 g0 g1 g2 \<Rightarrow>
          ethen (fine_args g0 alpha) (\<lambda>fx.
          ethen (fine_args g1 alpha) (\<lambda>fy.
          ethen (fine_args g2 alpha) (\<lambda>fz.
          Inr (''get_grid_corr_3d'',
               fx @ fy @ fz @
               [ANum (d_work g0), ANum (d_work g1), ANum (d_work g2),
                ANum (PyInt W), ANum alpha])))))"

text \<open>The degridding call of lines 1137, 1141 and 1146.\<close>

definition ii_degrid_call ::
  "axes \<Rightarrow> nat \<Rightarrow> grids \<Rightarrow> pynum \<Rightarrow> int \<Rightarrow> exn + (string \<times> parg list)" where
  "ii_degrid_call out_ax out gs alpha W =
     (case gs of
        G1 g0 \<Rightarrow>
          ethen (axis_arg out_ax 0) (\<lambda>x.
          ethen (fine_args g0 alpha) (\<lambda>fx.
          Inr (''degrid_1d'', [x, AArr out] @ fx @ [ANum alpha, ANum (PyInt W)])))
      | G2 g0 g1 \<Rightarrow>
          ethen (axis_arg out_ax 0) (\<lambda>x.
          ethen (axis_arg out_ax 1) (\<lambda>y.
          ethen (fine_args g0 alpha) (\<lambda>fx.
          ethen (fine_args g1 alpha) (\<lambda>fy.
          Inr (''degrid_2d'', [x, y, AArr out] @ fx @ fy @ [ANum alpha, ANum (PyInt W)])))))
      | G3 g0 g1 g2 \<Rightarrow>
          ethen (axis_arg out_ax 0) (\<lambda>x.
          ethen (axis_arg out_ax 1) (\<lambda>y.
          ethen (axis_arg out_ax 2) (\<lambda>z.
          ethen (fine_args g0 alpha) (\<lambda>fx.
          ethen (fine_args g1 alpha) (\<lambda>fy.
          ethen (fine_args g2 alpha) (\<lambda>fz.
          Inr (''degrid_3d'',
               [x, y, z, AArr out] @ fx @ fy @ fz @ [ANum alpha, ANum (PyInt W)]))))))))"

text \<open>
  The branch for a tuple \<^verbatim>\<open>in_ax\<close> starts with a \<^verbatim>\<open>raise\<close>; the statements after
  it (lines 828-912) never run. In the other branch \<^verbatim>\<open>out_ax\<close> is the tuple, since
  the mode is MODE_II only when one of the two sides is.
\<close>

definition ii_transform ::
  "externals \<Rightarrow> config \<Rightarrow> nat \<Rightarrow> nat \<Rightarrow> axes \<Rightarrow> axes \<Rightarrow> int \<Rightarrow> pynum \<Rightarrow> nat prog" where
  "ii_transform E c N inp in_ax out_ax W alpha =
     (if is_tuple in_ax then
        raise (Exception (''Defining grid on in_ax in MODE_II not yet '' @ ''supported...''))
      else
        (case out_ax of
           Paired coords specs \<Rightarrow>
             pthen (lift (ii_grids c N specs alpha)) (\<lambda>gs.
             pthen (call_copy inp) (\<lambda>inp.
             pthen (lift (ii_grid_call in_ax inp gs alpha W (hermitianized_axes c))) (\<lambda>call.
             pthen (call_gridding E (fst call) (snd call)) (\<lambda>inp_grid.
             pthen (lift (ii_degrid_corr_call gs alpha W)) (\<lambda>call.
             pthen (call_gridding E (fst call) (snd call)) (\<lambda>gc.
             pthen (call_divide E inp_grid gc) (\<lambda>inp_grid.
             pthen (call_zeros E (ii_zeros gs alpha)) (\<lambda>inp_grid_os.
             pthen (call_setslice E inp_grid_os (ii_pad c gs alpha) inp_grid) (\<lambda>u.
             pthen (shift_transform_shift E c inp_grid_os) (\<lambda>out.
             pthen (lift (ii_grid_corr_call gs alpha W)) (\<lambda>call.
             pthen (call_gridding E (fst call) (snd call)) (\<lambda>gc.
             pthen (call_divide E out gc) (\<lambda>out.
             pthen (lift (ii_degrid_call (Coords coords) out gs alpha W)) (\<lambda>call.
             call_gridding E (fst call) (snd call)))))))))))))))
         | Coords cs \<Rightarrow> raise (Unmodelled ''not reached: MODE_II without a paired side'')
         | Grid gs \<Rightarrow> raise (Unmodelled ''not reached: MODE_II without a paired side'')))"

section \<open>The entry point\<close>

text \<open>Validation and configuration, lines 147-361: the mode, \<open>N\<close> and the per-axis vectors.\<close>

definition resolve_request ::
  "nat \<Rightarrow> axes \<Rightarrow> axes \<Rightarrow> string setting \<Rightarrow> bool setting \<Rightarrow> bool setting \<Rightarrow> bool setting
   \<Rightarrow> (mode \<times> nat \<times> config) prog" where
  "resolve_request inp in_ax out_ax ftmachine in_zero_center out_zero_center
     enforce_hermitian_symmetry =
     (if is_tuple out_ax \<and> is_tuple in_ax then
        raise (TypeError ''out_ax and in_ax cannot both be tuples'')
      else
        pthen (select_mode inp in_ax out_ax) (\<lambda>mn.
        pthen (lift (check_dims (fst mn) (snd mn))) (\<lambda>u.
        pthen (lift (resolve_ftmachine ftmachine (snd mn))) (\<lambda>d.
        pthen (if nothing_requested d
               then pthen (warn (''No Fourier transformation requested, only '' @
                                 ''shifting will be performed!''))
                      (\<lambda>u. ret MODE_RR)
               else ret (fst mn)) (\<lambda>mode.
        pthen (lift (resolve_zero_center ''in_zero_center is a list with invalid length''
                       in_zero_center (snd mn))) (\<lambda>pre.
        pthen (lift (resolve_zero_center ''out_zero_center is a list with invalid length''
                       out_zero_center (snd mn))) (\<lambda>post.
        pthen (lift (resolve_hermitian enforce_hermitian_symmetry (snd mn))) (\<lambda>herm.
        ret (mode, snd mn,
             \<lparr>do_fft = do_fft d, do_ifft = do_ifft d,
              fftaxes = fftaxes d, ifftaxes = ifftaxes d,
              do_preshift = fst pre, do_postshift = fst post,
              preshift_axes = snd pre, postshift_axes = snd post,
              hermitianized_axes = herm\<rparr>)))))))))"

text \<open>The dispatch on the mode, lines 403-1154.\<close>

definition run_mode ::
  "externals \<Rightarrow> mode \<Rightarrow> nat \<Rightarrow> config \<Rightarrow> nat \<Rightarrow> axes \<Rightarrow> axes \<Rightarrow> int \<Rightarrow> pynum \<Rightarrow> nat prog" where
  "run_mode E m N c inp in_ax out_ax W alpha =
     (case m of
        MODE_RR \<Rightarrow> rr_transform E c inp
      | MODE_IR \<Rightarrow> ir_transform E c N inp in_ax out_ax W alpha
      | MODE_RI \<Rightarrow> ri_transform E c N inp in_ax out_ax W alpha
      | MODE_II \<Rightarrow> ii_transform E c N inp in_ax out_ax W alpha)"

definition gfft ::
  "externals \<Rightarrow> nat \<Rightarrow> axes \<Rightarrow> axes \<Rightarrow> string setting \<Rightarrow> bool setting \<Rightarrow> bool setting
   \<Rightarrow> bool setting \<Rightarrow> int \<Rightarrow> pynum \<Rightarrow> nat prog" where
  "gfft E inp in_ax out_ax ftmachine in_zero_center out_zero_center
     enforce_hermitian_symmetry W alpha =
     pthen (resolve_request inp in_ax out_ax ftmachine in_zero_center out_zero_center
              enforce_hermitian_symmetry)
       (\<lambda>r. case r of (m, N, c) \<Rightarrow> run_mode E m N c inp in_ax out_ax W alpha)"


section \<open>The direct-summation transforms\<close>

text \<open>
  \<^verbatim>\<open>dft\<close> (lines 1172-1206) and \<^verbatim>\<open>idft\<close> (lines 1208-1242). The values are complex
  numbers, the axes lists of real coordinates. The last line divides by
  \<^verbatim>\<open>len(in_vals)\<close>; for an empty \<^verbatim>\<open>in_vals\<close> and a non-empty output numpy gives NaN
  entries, which the reals do not have.
\<close>

fun check_axis_lengths :: "real list list \<Rightarrow> real list list \<Rightarrow> nat \<Rightarrow> nat \<Rightarrow> exn + unit" where
  "check_axis_lengths [] out_ax nin nout = Inr ()"
| "check_axis_lengths (a # in_ax) [] nin nout = Inl IndexError"
| "check_axis_lengths (a # in_ax) (b # out_ax) nin nout =
     (if length a \<noteq> nin then Inl (Exception ''dft: input axis length invalid'')
      else if length b \<noteq> nout then Inl (Exception ''dft: output axis length invalid'')
      else check_axis_lengths in_ax out_ax nin nout)"

text \<open>The innermost loop: \<^verbatim>\<open>for k in range(nax): psum += in_ax[k][j]*out_ax[k][i]\<close>\<close>

fun psum_loop :: "real \<Rightarrow> real list list \<Rightarrow> real list list \<Rightarrow> nat \<Rightarrow> nat \<Rightarrow> real" where
  "psum_loop psum [] out_ax j i = psum"
| "psum_loop psum (a # in_ax) [] j i = psum"
| "psum_loop psum (a # in_ax) (b # out_ax) j i = psum_loop (psum + a ! j * b ! i) in_ax out_ax j i"

text \<open>The loop over the input values, for \<^verbatim>\<open>dft\<close> and for \<^verbatim>\<open>idft\<close>.\<close>

fun dft_val_loop ::
  "complex \<Rightarrow> nat \<Rightarrow> complex list \<Rightarrow> real list list \<Rightarrow> real list list \<Rightarrow> nat \<Rightarrow> complex" where
  "dft_val_loop val j [] in_ax out_ax i = val"
| "dft_val_loop val j (v # in_vals) in_ax out_ax i =
     (let psum = psum_loop 0 in_ax out_ax j i;
          cphs = - 2 * pi * psum in
      dft_val_loop (val + v * Complex (cos cphs) (sin cphs)) (Suc j) in_vals in_ax out_ax i)"

fun idft_val_loop ::
  "complex \<Rightarrow> nat \<Rightarrow> complex list \<Rightarrow> real list list \<Rightarrow> real list list \<Rightarrow> nat \<Rightarrow> complex" where
  "idft_val_loop val j [] in_ax out_ax i = val"
| "idft_val_loop val j (v # in_vals) in_ax out_ax i =
     (let psum = psum_loop 0 in_ax out_ax j i;
          cphs = 2 * pi * psum in
      idft_val_loop (val + v * Complex (cos cphs) (sin cphs)) (Suc j) in_vals in_ax out_ax i)"

definition dft :: "complex list \<Rightarrow> real list list \<Rightarrow> real list list \<Rightarrow> exn + complex list" where
  "dft in_vals in_ax out_ax =
     (if length out_ax \<noteq> length in_ax
      then Inl (Exception ''dft: number of input and output dimensions not equal!'')
      else
        (case out_ax of
           [] \<Rightarrow> Inl IndexError
         | b # bs \<Rightarrow>
             (let nin = length in_vals; nout = length b in
              ethen (check_axis_lengths in_ax out_ax nin nout) (\<lambda>u.
                let out_vals = map (\<lambda>i. dft_val_loop 0 0 in_vals in_ax out_ax i) [0..<nout] in
                if nin = 0 \<and> nout \<noteq> 0 then Inl (Unmodelled ''0/0: NaN entries'')
                else Inr (map (\<lambda>v. v / of_nat nin) out_vals)))))"

definition idft :: "complex list \<Rightarrow> real list list \<Rightarrow> real list list \<Rightarrow> exn + complex list" where
  "idft in_vals in_ax out_ax =
     (if length out_ax \<noteq> length in_ax
      then Inl (Exception ''dft: number of input and output dimensions not equal!'')
      else
        (case out_ax of
           [] \<Rightarrow> Inl IndexError
         | b # bs \<Rightarrow>
             (let nin = length in_vals; nout = length b in
              ethen (check_axis_lengths in_ax out_ax nin nout) (\<lambda>u.
                let out_vals = map (\<lambda>i. idft_val_loop 0 0 in_vals in_ax out_ax i) [0..<nout] in
                if nin = 0 \<and> nout \<noteq> 0 then Inl (Unmodelled ''0/0: NaN entries'')
                else Inr (map (\<lambda>v. v / of_nat nin) out_vals)))))"

section \<open>Vocabulary of the statements\<close>

text \<open>
  A program keeps the heap below \<open>n\<close>: started with at least \<open>n\<close> addresses in use,
  it leaves the arrays at the addresses below \<open>n\<close> as they are, never releases an
  address, and a value it returns satisfies \<open>Q\<close>.
\<close>

definition keeps :: "nat \<Rightarrow> ('a \<Rightarrow> bool) \<Rightarrow> 'a prog \<Rightarrow> bool" where
  "keeps n Q p =
     (\<forall>s. n \<le> nxt s \<longrightarrow>
        nxt s \<le> nxt (snd (p s)) \<and> (\<forall>a<n. cells (snd (p s)) a = cells s a) \<and>
        (\<forall>v. fst (p s) = Inr v \<longrightarrow> Q v))"

text \<open>The half-length shift along every axis at once.\<close>

fun shift_all :: "ndarray \<Rightarrow> ndarray" where
  "shift_all (Scalar c) = Scalar c"
| "shift_all (Array xs) = Array (roll (length xs div 2) (map shift_all xs))"

text \<open>No entry of \<^verbatim>\<open>ftmachine\<close> asks for a transform.\<close>

definition direction_none :: "string \<Rightarrow> bool" where
  "direction_none m = (lower m \<noteq> FTM_FFT \<and> lower m \<noteq> FTM_IFFT)"

definition no_direction_requested :: "string setting \<Rightarrow> bool" where
  "no_direction_requested ftmachine =
     (case ftmachine of Single m \<Rightarrow> direction_none m | PerAxis ms \<Rightarrow> list_all direction_none ms)"

text \<open>What the shifts alone make of an array: the shift before, then the shift after.\<close>

definition shift_only :: "config \<Rightarrow> ndarray \<Rightarrow> exn + ndarray" where
  "shift_only c x =
     ethen (if do_preshift c then fftshift x (preshift_axes c) else Inr x) (\<lambda>y.
       if do_postshift c then fftshift y (postshift_axes c) else Inr y)"

text \<open>
  A zero-centering value that marks axis \<open>k\<close> alone, one that marks no axis, one that
  marks every axis, and a per-axis list whose length is not \<open>N\<close>.
\<close>

definition only_axis :: "nat \<Rightarrow> nat \<Rightarrow> bool setting \<Rightarrow> bool" where
  "only_axis N k z = (k < N \<and> z = PerAxis ((replicate N False)[k := True]))"

definition no_axis :: "nat \<Rightarrow> bool setting \<Rightarrow> bool" where
  "no_axis N z = (z = Single False \<or> z = PerAxis (replicate N False))"

definition every_axis :: "nat \<Rightarrow> bool setting \<Rightarrow> bool" where
  "every_axis N z = (z = Single True \<or> z = PerAxis (replicate N True))"

definition bad_length :: "nat \<Rightarrow> 'a setting \<Rightarrow> bool" where
  "bad_length N z = (case z of Single v \<Rightarrow> False | PerAxis vs \<Rightarrow> length vs \<noteq> N)"

text \<open>The axes of a request, in order.\<close>

fun grid_list :: "grids \<Rightarrow> axis_grid list" where
  "grid_list (G1 g0) = [g0]"
| "grid_list (G2 g0 g1) = [g0, g1]"
| "grid_list (G3 g0 g1 g2) = [g0, g1, g2]"

text \<open>The phase of input value \<open>j\<close> at output point \<open>i\<close>, up to the factor \<open>2\<pi>\<close>.\<close>

definition phase_sum :: "real list list \<Rightarrow> real list list \<Rightarrow> nat \<Rightarrow> nat \<Rightarrow> real" where
  "phase_sum in_ax out_ax j i = (\<Sum>k<length in_ax. in_ax ! k ! j * out_ax ! k ! i)"

subsection \<open>A concrete heap and concrete collaborators\<close>

text \<open>
  Collaborators that hand an argument back, a 2 by 2 field at address 0 and a
  coordinate array at every other address: the inputs the theorems are run on. With
  them, the resolved configuration of a call with the default arguments, and the
  grid variables of an axis with tuple \<^verbatim>\<open>(1., 4)\<close> at \<^verbatim>\<open>alpha = 1.5\<close>.
\<close>

definition echo_externals :: externals where
  "echo_externals =
     \<lparr>fftn = (\<lambda>x axes. Inr x), ifftn = (\<lambda>x axes. Inr x),
      np_zeros = (\<lambda>dims. Inr (Array [])),
      np_getslice = (\<lambda>x sl. Inr x),
      np_setslice = (\<lambda>t sl x. Inr x),
      np_divide = (\<lambda>x y. Inr x),
      gridding = (\<lambda>name args. Inr (Array []))\<rparr>"

definition field22 :: ndarray where
  "field22 = Array [Array [Scalar 1, Scalar 2], Array [Scalar 3, Scalar 4]]"

definition heap0 :: heap where
  "heap0 = \<lparr>cells = (\<lambda>a. if a = 0 then field22 else Array [Scalar 0, Scalar 1]),
            nxt = 2, warnings = []\<rparr>"

definition default_config :: config where
  "default_config =
     \<lparr>do_fft = True, do_ifft = False, fftaxes = None, ifftaxes = Some [],
      do_preshift = True, do_postshift = True, preshift_axes = None, postshift_axes = None,
      hermitianized_axes = [False, False]\<rparr>"

definition cell_1_4 :: axis_grid where
  "cell_1_4 = \<lparr>d_fin = PyFloat 1, n_fin = PyInt 4, min_fin = PyFloat (- 2),
               d_work = PyFloat (1 / 6), n_work = PyInt 6, min_work = PyFloat (- (1 / 2))\<rparr>"

section \<open>Sequencing\<close>

lemma pthen_step: "m s = (Inr v, s') \<Longrightarrow> pthen m f s = f v s'"
  by (simp add: pthen_def)

lemma pthen_fail: "m s = (Inl e, s') \<Longrightarrow> pthen m f s = (Inl e, s')"
  by (simp add: pthen_def)

lemma pthen_lift_Inl: "pthen (lift (Inl e)) f s = (Inl e, s)"
  by (simp add: pthen_def lift_def)

lemma pthen_lift_Inr: "pthen (lift (Inr v)) f s = f v s"
  by (simp add: pthen_def lift_def)

lemma pthen_warn: "pthen (warn msg) f s = f () (s\<lparr>warnings := warnings s @ [msg]\<rparr>)"
  by (simp add: pthen_def warn_def)

lemma pthen_ret: "pthen (ret v) f s = f v s"
  by (simp add: pthen_def ret_def)

lemma pthen_assoc: "pthen (pthen m g) f s = pthen m (\<lambda>x. pthen (g x) f) s"
  by (simp add: pthen_def split: prod.splits sum.splits)

section \<open>Arrays and the half-length shift\<close>

lemma ndim_Array_Nil [simp]: "ndim (Array []) = 1"
  by (simp add: ndim_def)

lemma ndim_Array_Cons [simp]: "ndim (Array (x # xs)) = Suc (ndim x)"
  by (simp add: ndim_def)

lemma ndim_Scalar [simp]: "ndim (Scalar c) = 0"
  by (simp add: ndim_def)

lemma roll_rotate: "roll s xs = rotate (length xs - s mod length xs) xs"
proof (cases "xs = []")
  case True
  then show ?thesis by (simp add: roll_def)
next
  case False
  show ?thesis
  proof (cases "s mod length xs = 0")
    case True
    with False show ?thesis by (simp add: roll_def)
  next
    case nz: False
    with False have "length xs - s mod length xs < length xs" by simp
    with False show ?thesis by (simp add: roll_def rotate_drop_take Let_def)
  qed
qed

lemma length_roll [simp]: "length (roll s xs) = length xs"
  by (simp add: roll_rotate)

lemma set_roll [simp]: "set (roll s xs) = set xs"
  by (simp add: roll_rotate)

lemma roll_map: "roll s (map f xs) = map f (roll s xs)"
  by (simp add: roll_rotate rotate_map)

lemma roll_half_twice:
  assumes "even (length xs)"
  shows "roll (length xs div 2) (roll (length xs div 2) xs) = xs"
proof (cases "xs = []")
  case True
  then show ?thesis by (simp add: roll_def)
next
  case False
  then have pos: "0 < length xs" by simp
  with assms have lt: "length xs div 2 < length xs" by (simp add: div_less_dividend)
  have half: "length xs - length xs div 2 = length xs div 2" using assms by (auto elim: evenE)
  have two: "length xs div 2 + length xs div 2 = length xs" using assms by (auto elim: evenE)
  show ?thesis
    using lt by (simp add: roll_rotate half rotate_rotate two)
qed

lemma fold_shift_axis_Suc:
  "fold shift_axis (map Suc ks) (Array ys) = Array (map (fold shift_axis ks) ys)"
  by (induction ks arbitrary: ys) simp_all

lemma upt_Suc_shift: "[0..<Suc m] = 0 # map Suc [0..<m]"
  by (simp add: upt_conv_Cons map_Suc_upt del: upt_Suc)

lemma fold_shift_axis_all:
  "rect a \<Longrightarrow> fold shift_axis [0..<ndim a] a = shift_all a"
proof (induction a)
  case (Scalar c)
  show ?case by simp
next
  case (Array xs)
  show ?case
  proof (cases xs)
    case Nil
    then show ?thesis by (simp add: roll_def)
  next
    case (Cons y ys)
    have each: "fold shift_axis [0..<ndim y] x = shift_all x" if "x \<in> set xs" for x
    proof -
      from Array.prems that Cons have "rect x" "shape x = shape y" by auto
      then have "ndim x = ndim y" by (simp add: ndim_def)
      with Array.IH[OF that \<open>rect x\<close>] show ?thesis by simp
    qed
    have "fold shift_axis [0..<ndim (Array xs)] (Array xs) =
          fold shift_axis (map Suc [0..<ndim y]) (shift_axis 0 (Array xs))"
      using Cons by (simp add: upt_Suc_shift del: upt_Suc)
    also have "\<dots> = Array (map (fold shift_axis [0..<ndim y]) (roll (length xs div 2) xs))"
      by (simp add: fold_shift_axis_Suc)
    also have "\<dots> = Array (roll (length xs div 2) (map (fold shift_axis [0..<ndim y]) xs))"
      by (simp add: roll_map)
    also have "map (fold shift_axis [0..<ndim y]) xs = map shift_all xs"
      using each by simp
    finally show ?thesis by simp
  qed
qed

lemma shift_all_shape: "rect a \<Longrightarrow> shape (shift_all a) = shape a \<and> rect (shift_all a)"
proof (induction a)
  case (Scalar c)
  show ?case by simp
next
  case (Array xs)
  show ?case
  proof (cases xs)
    case Nil
    then show ?thesis by (simp add: roll_def)
  next
    case (Cons y ys)
    let ?zs = "roll (length xs div 2) (map shift_all xs)"
    have each: "shape (shift_all x) = shape y \<and> rect (shift_all x)" if "x \<in> set xs" for x
    proof -
      from Array.prems that Cons have "rect x" "shape x = shape y" by auto
      with Array.IH[OF that \<open>rect x\<close>] show ?thesis by simp
    qed
    have ne: "?zs \<noteq> []" using Cons by (metis length_roll length_map list.size(3) nat.simps(3) length_Cons)
    then obtain z zs' where zs: "?zs = z # zs'" by (cases ?zs) auto
    have mem: "\<And>w. w \<in> set ?zs \<Longrightarrow> shape w = shape y \<and> rect w"
      using each by auto
    have len: "length ?zs = length xs" by simp
    have "shape (Array ?zs) = Suc (length zs') # shape z" using zs by simp
    moreover have "shape z = shape y" using mem[of z] zs by simp
    moreover have "Suc (length zs') = Suc (length ys)"
      using arg_cong[OF zs, of length] Cons by simp
    ultimately have sh: "shape (Array ?zs) = shape (Array xs)" using Cons by simp
    have "rect (Array ?zs)"
      using mem zs by (auto simp del: set_roll)
    with sh show ?thesis by simp
  qed
qed

lemma shift_all_twice:
  "rect a \<Longrightarrow> \<forall>n \<in> set (shape a). even n \<Longrightarrow> shift_all (shift_all a) = a"
proof (induction a)
  case (Scalar c)
  show ?case by simp
next
  case (Array xs)
  show ?case
  proof (cases xs)
    case Nil
    then show ?thesis by (simp add: roll_def)
  next
    case (Cons y ys)
    have ev: "even (length xs)" using Array.prems(2) Cons by simp
    have each: "shift_all (shift_all x) = x" if "x \<in> set xs" for x
    proof -
      from Array.prems that Cons have "rect x" "shape x = shape y" by auto
      moreover have "\<forall>n \<in> set (shape y). even n" using Array.prems(2) Cons by simp
      ultimately show ?thesis using Array.IH[OF that] by simp
    qed
    have "shift_all (shift_all (Array xs)) =
          Array (roll (length xs div 2) (roll (length xs div 2) (map shift_all (map shift_all xs))))"
      by (simp add: roll_map)
    also have "map shift_all (map shift_all xs) = xs"
      using each by (simp add: map_idI)
    also have "roll (length xs div 2) (roll (length xs div 2) xs) = xs"
      using ev by (rule roll_half_twice)
    finally show ?thesis .
  qed
qed

lemma fftshift_None: "rect a \<Longrightarrow> fftshift a None = Inr (shift_all a)"
  by (simp add: fftshift_def fold_shift_axis_all)

lemma fftshift_all_axes: "rect a \<Longrightarrow> fftshift a (Some [0..<ndim a]) = Inr (shift_all a)"
  by (simp add: fftshift_def fold_shift_axis_all)

lemma fftshift_one_axis: "k < ndim a \<Longrightarrow> fftshift a (Some [k]) = Inr (shift_axis k a)"
  by (simp add: fftshift_def)

section \<open>Validation and configuration\<close>

lemma select_mode_gridded_state:
  "select_mode inp in_ax out_ax s = (Inr (m, N), s1) \<Longrightarrow> m \<noteq> MODE_RR \<Longrightarrow> s1 = s"
  by (auto simp: select_mode_def pthen_def ret_def raise_def read_array_def warn_def
           split: if_splits)

lemma select_mode_both_tuples:
  "select_mode inp in_ax out_ax s = (Inr (m, N), s1) \<Longrightarrow> is_tuple out_ax \<Longrightarrow> is_tuple in_ax \<Longrightarrow> N = 2"
  by (cases in_ax; cases out_ax) (auto simp: select_mode_def pthen_def ret_def raise_def read_array_def warn_def
           split: if_splits)

lemma select_mode_frame:
  "select_mode inp in_ax out_ax s = (r, s1) \<Longrightarrow> cells s1 = cells s \<and> nxt s1 = nxt s"
  by (auto simp: select_mode_def pthen_def ret_def raise_def read_array_def warn_def
           split: if_splits)

lemma select_mode_empty:
  assumes "py_len in_ax = 0"
  shows "select_mode inp in_ax out_ax s =
           (Inr (MODE_RR, ndim (cells s inp)),
            if py_len out_ax \<noteq> 0
            then s\<lparr>warnings := warnings s @
                   [''in_ax is empty, indicating regular to regular '' @
                    ''transformation is requested, but out_ax is not empty. '' @
                    ''Ignoring out_ax and proceeding with regular to regular mode.'']\<rparr>
            else s)"
  using assms by (simp add: select_mode_def pthen_def read_array_def warn_def ret_def)

lemma py_len_0_not_tuple: "py_len ax = 0 \<Longrightarrow> \<not> is_tuple ax"
  by (cases ax) simp_all

lemma resolve_request_frame:
  "resolve_request inp in_ax out_ax ft iz oz eh s = (r, s1) \<Longrightarrow> cells s1 = cells s \<and> nxt s1 = nxt s"
  unfolding resolve_request_def
  by (auto simp: pthen_def ret_def raise_def lift_def warn_def
           split: if_splits prod.splits sum.splits dest: select_mode_frame)

lemma gfft_unfold:
  assumes "resolve_request inp in_ax out_ax ft iz oz eh s = (Inr (m, N, c), s1)"
  shows "gfft E inp in_ax out_ax ft iz oz eh W alpha s = run_mode E m N c inp in_ax out_ax W alpha s1"
  using assms by (simp add: gfft_def pthen_def)

lemma resolve_request_inv:
  assumes "resolve_request inp in_ax out_ax ft iz oz eh s = (Inr (m, N, c), s1)"
  shows "\<exists>m0 s0.
           select_mode inp in_ax out_ax s = (Inr (m0, N), s0) \<and>
           check_dims m0 N = Inr () \<and>
           resolve_ftmachine ft N =
             Inr \<lparr>do_fft = do_fft c, do_ifft = do_ifft c,
                  fftaxes = fftaxes c, ifftaxes = ifftaxes c\<rparr> \<and>
           (m = MODE_RR \<or> m = m0) \<and>
           resolve_zero_center ''in_zero_center is a list with invalid length'' iz N =
             Inr (do_preshift c, preshift_axes c) \<and>
           resolve_zero_center ''out_zero_center is a list with invalid length'' oz N =
             Inr (do_postshift c, postshift_axes c) \<and>
           resolve_hermitian eh N = Inr (hermitianized_axes c) \<and>
           cells s1 = cells s \<and> nxt s1 = nxt s"
  using assms unfolding resolve_request_def
  by (auto simp: pthen_def ret_def raise_def lift_def warn_def
           split: if_splits prod.splits sum.splits dest: select_mode_frame)

lemma resolve_request_mode:
  assumes "resolve_request inp in_ax out_ax ft iz oz eh s = (Inr (m, N, c), s1)"
    and "nothing_requested \<lparr>do_fft = do_fft c, do_ifft = do_ifft c,
                  fftaxes = fftaxes c, ifftaxes = ifftaxes c\<rparr>"
  shows "m = MODE_RR"
  using assms unfolding resolve_request_def
  by (auto simp: pthen_def ret_def raise_def lift_def warn_def nothing_requested_def
           split: if_splits prod.splits sum.splits)

lemma check_dims_error: "check_dims m N = Inl e \<Longrightarrow> \<exists>msg. e = Exception msg"
  by (auto simp: check_dims_def split: if_splits)

lemma resolve_ftmachine_error: "resolve_ftmachine ft N = Inl e \<Longrightarrow> \<exists>msg. e = Exception msg"
  by (auto simp: resolve_ftmachine_def split: if_splits setting.splits)

lemma resolve_zero_center_error:
  "resolve_zero_center msg z N = Inl e \<Longrightarrow> e = Exception msg"
  by (auto simp: resolve_zero_center_def split: if_splits setting.splits prod.splits)

lemma resolve_hermitian_error: "resolve_hermitian eh N = Inl e \<Longrightarrow> \<exists>msg. e = Exception msg"
  by (auto simp: resolve_hermitian_def ethen_def split: if_splits setting.splits sum.splits)

lemma resolve_ftmachine_bad: "bad_length N ft \<Longrightarrow> \<exists>e. resolve_ftmachine ft N = Inl e"
  by (auto simp: resolve_ftmachine_def bad_length_def split: setting.splits)

lemma resolve_zero_center_bad: "bad_length N z \<Longrightarrow> \<exists>e. resolve_zero_center msg z N = Inl e"
  by (auto simp: resolve_zero_center_def bad_length_def split: setting.splits)

lemma resolve_hermitian_bad: "bad_length N eh \<Longrightarrow> \<exists>e. resolve_hermitian eh N = Inl e"
  by (auto simp: resolve_hermitian_def bad_length_def ethen_def split: setting.splits)

lemma resolve_request_error:
  assumes ty: "\<not> (is_tuple out_ax \<and> is_tuple in_ax)"
    and sel: "select_mode inp in_ax out_ax s = (Inr (m, N), s1)"
    and bad: "bad_length N ft \<or> bad_length N iz \<or> bad_length N oz \<or> bad_length N eh"
  shows "\<exists>msg s2. resolve_request inp in_ax out_ax ft iz oz eh s = (Inl (Exception msg), s2)"
proof -
  let ?k = "pthen (select_mode inp in_ax out_ax)"
  note step = pthen_step[where m="select_mode inp in_ax out_ax" and s=s, OF sel]
  show ?thesis
  proof (cases "check_dims m N")
    case (Inl e)
    with check_dims_error[OF Inl] ty show ?thesis
      unfolding resolve_request_def by (auto simp: step pthen_lift_Inl)
  next
    case c1: (Inr u)
    show ?thesis
    proof (cases "resolve_ftmachine ft N")
      case (Inl e)
      with resolve_ftmachine_error[OF Inl] ty c1 show ?thesis
        unfolding resolve_request_def by (auto simp: step pthen_lift_Inl pthen_lift_Inr)
    next
      case c2: (Inr d)
      show ?thesis
      proof (cases "resolve_zero_center ''in_zero_center is a list with invalid length'' iz N")
        case (Inl e)
        with resolve_zero_center_error[OF Inl] ty c1 c2 show ?thesis
          unfolding resolve_request_def
          by (auto simp: step pthen_lift_Inl pthen_lift_Inr pthen_warn pthen_ret pthen_assoc)
      next
        case c3: (Inr pre)
        show ?thesis
        proof (cases "resolve_zero_center ''out_zero_center is a list with invalid length'' oz N")
          case (Inl e)
          with resolve_zero_center_error[OF Inl] ty c1 c2 c3 show ?thesis
            unfolding resolve_request_def
            by (auto simp: step pthen_lift_Inl pthen_lift_Inr pthen_warn pthen_ret pthen_assoc)
        next
          case c4: (Inr post)
          show ?thesis
          proof (cases "resolve_hermitian eh N")
            case (Inl e)
            with resolve_hermitian_error[OF Inl] ty c1 c2 c3 c4 show ?thesis
              unfolding resolve_request_def
              by (auto simp: step pthen_lift_Inl pthen_lift_Inr pthen_warn pthen_ret pthen_assoc)
          next
            case c5: (Inr herm)
            from bad c2 c3 c4 c5 resolve_ftmachine_bad[of N ft]
              resolve_zero_center_bad[of N iz "''in_zero_center is a list with invalid length''"]
              resolve_zero_center_bad[of N oz "''out_zero_center is a list with invalid length''"]
              resolve_hermitian_bad[of N eh]
            have False by auto
            then show ?thesis ..
          qed
        qed
      qed
    qed
  qed
qed

lemma ftmachine_loop_none: "list_all direction_none ms \<Longrightarrow> ftmachine_loop i ms d = d"
  by (induction ms arbitrary: i) (simp_all add: direction_none_def)

lemma resolve_ftmachine_none:
  "no_direction_requested ft \<Longrightarrow> resolve_ftmachine ft N = Inr d \<Longrightarrow> d = no_directions"
  by (cases ft)
     (auto simp: no_direction_requested_def resolve_ftmachine_def direction_none_def
        ftmachine_loop_none split: if_splits)

lemma nothing_requested_none [simp]: "nothing_requested no_directions"
  by (simp add: nothing_requested_def no_directions_def)

lemma zero_center_loop_append:
  "zero_center_loop i (xs @ ys) acc = zero_center_loop (i + length xs) ys (zero_center_loop i xs acc)"
  by (induction xs arbitrary: i acc) (auto split: prod.splits)

lemma zero_center_loop_False: "zero_center_loop i (replicate n False) (d, acc) = (d, acc)"
  by (induction n arbitrary: i) simp_all

lemma zero_center_loop_True:
  "zero_center_loop i (replicate n True) (d, acc) = (d \<or> 0 < n, acc @ [i..<i + n])"
proof (induction n arbitrary: i d acc)
  case 0
  show ?case by simp
next
  case (Suc n)
  show ?case by (simp add: Suc.IH upt_conv_Cons del: upt_Suc)
qed

lemma one_hot_split:
  "k < N \<Longrightarrow> (replicate N False)[k := True] = replicate k False @ True # replicate (N - Suc k) False"
  by (simp add: upd_conv_take_nth_drop min_def)

lemma resolve_zero_center_only:
  "only_axis N k z \<Longrightarrow> resolve_zero_center msg z N = Inr (True, Some [k])"
  by (simp add: only_axis_def resolve_zero_center_def one_hot_split zero_center_loop_append
        zero_center_loop_False)

lemma resolve_zero_center_no:
  "no_axis N z \<Longrightarrow> resolve_zero_center msg z N = Inr (False, Some [])"
  by (auto simp: no_axis_def resolve_zero_center_def zero_center_loop_False)

lemma resolve_zero_center_every:
  "every_axis N z \<Longrightarrow> 0 < N \<Longrightarrow>
   resolve_zero_center msg z N = Inr (True, None) \<or>
   resolve_zero_center msg z N = Inr (True, Some [0..<N])"
  by (auto simp: every_axis_def resolve_zero_center_def zero_center_loop_True)

subsection \<open>Concrete requests\<close>

lemma no_direction_none: "no_direction_requested (Single ''none'')"
  by (simp add: no_direction_requested_def direction_none_def lower_def char_lower_def
        FTM_FFT_def FTM_IFFT_def)

lemma cells_heap0_0: "cells heap0 0 = field22"
  by (simp add: heap0_def)

lemma ndim_field22: "ndim field22 = 2"
  by (simp add: field22_def)

lemmas resolve_eval = resolve_request_def select_mode_def pthen_def read_array_def ret_def lift_def
        warn_def check_dims_def resolve_ftmachine_def resolve_zero_center_def raise_def
        resolve_hermitian_def ethen_def heap0_def field22_def ndim_def lower_def char_lower_def
        FTM_FFT_def FTM_IFFT_def no_directions_def nothing_requested_def numeral_2_eq_2

lemma resolve_forced_request:
  "resolve_request 0 (Coords [1, 1]) (Grid [(PyFloat 1, PyInt 4), (PyFloat 1, PyInt 4)])
     (Single ''none'') (PerAxis [False, True]) (Single False) (Single False) heap0 =
   (Inr (MODE_RR, 2,
     \<lparr>do_fft = False, do_ifft = False, fftaxes = Some [], ifftaxes = Some [],
      do_preshift = True, do_postshift = False, preshift_axes = Some [1], postshift_axes = Some [],
      hermitianized_axes = [False, False]\<rparr>),
    heap0\<lparr>warnings := [''No Fourier transformation requested, only shifting will be performed!'']\<rparr>)"
  by (simp add: resolve_eval)

lemma resolve_every_axis_request:
  "resolve_request 0 (Coords []) (Coords []) (Single ''none'') (Single True) (PerAxis [True, True])
     (Single False) heap0 =
   (Inr (MODE_RR, 2,
     \<lparr>do_fft = False, do_ifft = False, fftaxes = Some [], ifftaxes = Some [],
      do_preshift = True, do_postshift = True, preshift_axes = None, postshift_axes = Some [0, 1],
      hermitianized_axes = [False, False]\<rparr>),
    heap0\<lparr>warnings := [''No Fourier transformation requested, only shifting will be performed!'']\<rparr>)"
  by (simp add: resolve_eval)

lemma resolve_paired_in_ax_request:
  "resolve_request 0 (Paired [1] [(PyFloat 1, PyInt 4)]) (Coords [1]) (Single ''fft'') (Single True)
     (Single True) (Single False) heap0 =
   (Inr (MODE_II, 1,
     \<lparr>do_fft = True, do_ifft = False, fftaxes = None, ifftaxes = Some [],
      do_preshift = True, do_postshift = True, preshift_axes = None, postshift_axes = None,
      hermitianized_axes = [False]\<rparr>), heap0)"
  by (simp add: resolve_eval)

section \<open>Dimensionality and the lengths of per-axis lists\<close>

text \<open>
  Claim C3. A request whose mode is a gridded one (IR, RI or II) and whose
  dimensionality \<open>N\<close> exceeds 3 fails with the exception "Gridding has been requested
  for an unsupported number of dimensions!" and the heap is as it was: nothing has
  been gridded, transformed or allocated. In MODE_RR every positive \<open>N\<close> passes the
  check.
\<close>

theorem gridding_above_three_dimensions_fails:
  assumes "select_mode inp in_ax out_ax s = (Inr (m, N), s1)"
    and "m \<noteq> MODE_RR" and "3 < N"
  shows "gfft E inp in_ax out_ax ft iz oz eh W alpha s =
           (Inl (Exception ''Gridding has been requested for an unsupported number of dimensions!''), s) \<and>
         (\<forall>N'. 0 < N' \<longrightarrow> check_dims MODE_RR N' = Inr ())"
  using assms select_mode_gridded_state[OF assms(1,2)] select_mode_both_tuples[OF assms(1)]
  by (auto simp add: gfft_def resolve_request_def pthen_def lift_def check_dims_def)

text \<open>Claim C3 at a concrete request.\<close>

theorem gridding_above_three_dimensions_fails_witness:
  "gfft echo_externals 0 (Coords [1, 1, 1, 1])
     (Grid [(PyFloat 1, PyInt 4), (PyFloat 1, PyInt 4), (PyFloat 1, PyInt 4), (PyFloat 1, PyInt 4)])
     (Single ''fft'') (Single True) (Single True) (Single False) 6 (PyFloat (3 / 2)) heap0 =
   (Inl (Exception ''Gridding has been requested for an unsupported number of dimensions!''), heap0)"
proof -
  have sel: "select_mode 0 (Coords [1, 1, 1, 1])
     (Grid [(PyFloat 1, PyInt 4), (PyFloat 1, PyInt 4), (PyFloat 1, PyInt 4), (PyFloat 1, PyInt 4)]) heap0 =
     (Inr (MODE_IR, 4), heap0)"
    by (simp add: select_mode_def ret_def)
  have m: "MODE_IR \<noteq> MODE_RR" by simp
  have n: "(3::nat) < 4" by simp
  from gridding_above_three_dimensions_fails[OF sel m n] show ?thesis by simp
qed

text \<open>
  Claim C6. When \<^verbatim>\<open>ftmachine\<close>, \<^verbatim>\<open>in_zero_center\<close>, \<^verbatim>\<open>out_zero_center\<close> or
  \<^verbatim>\<open>enforce_hermitian_symmetry\<close> is a list whose length is not the dimensionality
  \<open>N\<close> of the request, the call raises an exception, and when it does no array has
  been allocated or changed.
\<close>

theorem per_axis_list_of_wrong_length_fails:
  assumes ty: "\<not> (is_tuple out_ax \<and> is_tuple in_ax)"
    and sel: "select_mode inp in_ax out_ax s = (Inr (m, N), s1)"
    and bad: "bad_length N ft \<or> bad_length N iz \<or> bad_length N oz \<or> bad_length N eh"
  shows "(\<exists>msg. fst (gfft E inp in_ax out_ax ft iz oz eh W alpha s) = Inl (Exception msg)) \<and>
         cells (snd (gfft E inp in_ax out_ax ft iz oz eh W alpha s)) = cells s \<and>
         nxt (snd (gfft E inp in_ax out_ax ft iz oz eh W alpha s)) = nxt s"
proof -
  from resolve_request_error[OF ty sel bad] obtain msg s2 where
    res: "resolve_request inp in_ax out_ax ft iz oz eh s = (Inl (Exception msg), s2)" by blast
  from resolve_request_frame[OF res] have fr: "cells s2 = cells s" "nxt s2 = nxt s" by simp_all
  have "gfft E inp in_ax out_ax ft iz oz eh W alpha s = (Inl (Exception msg), s2)"
    using res by (simp add: gfft_def pthen_def)
  with fr show ?thesis by simp
qed

text \<open>Claim C6 at a concrete request.\<close>

theorem per_axis_list_of_wrong_length_fails_witness:
  "(\<exists>msg. fst (gfft echo_externals 0 (Coords []) (Coords []) (PerAxis [''fft''])
             (Single True) (Single True) (Single False) 6 (PyFloat (3 / 2)) heap0) =
           Inl (Exception msg)) \<and>
   nxt (snd (gfft echo_externals 0 (Coords []) (Coords []) (PerAxis [''fft''])
             (Single True) (Single True) (Single False) 6 (PyFloat (3 / 2)) heap0)) = 2"
proof -
  have ty: "\<not> (is_tuple (Coords []) \<and> is_tuple (Coords []))" by simp
  have sel: "select_mode 0 (Coords []) (Coords []) heap0 = (Inr (MODE_RR, 2), heap0)"
    by (simp add: select_mode_def ret_def pthen_def read_array_def cells_heap0_0 ndim_field22)
  have bad: "bad_length 2 (PerAxis [''fft'']) \<or> bad_length 2 (Single True) \<or>
             bad_length 2 (Single True) \<or> bad_length 2 (Single False)"
    by (simp add: bad_length_def)
  from per_axis_list_of_wrong_length_fails[OF ty sel bad, of echo_externals 6 "PyFloat (3 / 2)"]
  show ?thesis by (simp add: heap0_def)
qed

section \<open>An empty in_ax\<close>

lemma resolve_request_empty:
  assumes rr: "py_len in_ax = 0"
  shows "resolve_request inp in_ax out_ax ft iz oz eh s =
         resolve_request inp in_ax (Coords []) ft iz oz eh
           (if py_len out_ax \<noteq> 0
            then s\<lparr>warnings := warnings s @
                   [''in_ax is empty, indicating regular to regular '' @
                    ''transformation is requested, but out_ax is not empty. '' @
                    ''Ignoring out_ax and proceeding with regular to regular mode.'']\<rparr>
            else s)"
    (is "_ = resolve_request inp in_ax (Coords []) ft iz oz eh ?sw")
proof -
  have nt: "\<not> is_tuple in_ax" using rr by (rule py_len_0_not_tuple)
  have c: "cells ?sw = cells s" by simp
  have a: "select_mode inp in_ax out_ax s = (Inr (MODE_RR, ndim (cells s inp)), ?sw)"
    by (rule select_mode_empty[OF rr])
  have b: "select_mode inp in_ax (Coords []) ?sw = (Inr (MODE_RR, ndim (cells s inp)), ?sw)"
    using select_mode_empty[OF rr, of inp "Coords []" ?sw] by (simp only: c py_len.simps list.size if_False simp_thms)
  show ?thesis
    unfolding resolve_request_def
    by (simp only: nt simp_thms if_False
          pthen_step[where m="select_mode inp in_ax out_ax" and s=s, OF a]
          pthen_step[where m="select_mode inp in_ax (Coords [])" and s="?sw", OF b])
qed

lemma gfft_empty_rr:
  assumes rr: "py_len in_ax = 0"
  shows "gfft E inp in_ax out_ax ft iz oz eh W alpha s =
         pthen (resolve_request inp in_ax out_ax ft iz oz eh) (\<lambda>r. rr_transform E (snd (snd r)) inp) s"
proof (cases "resolve_request inp in_ax out_ax ft iz oz eh s")
  case (Pair r s1)
  show ?thesis
  proof (cases r)
    case (Inl e)
    with Pair show ?thesis by (simp add: gfft_def pthen_fail)
  next
    case (Inr v)
    obtain m N c where v: "v = (m, N, c)" by (cases v)
    have ok: "resolve_request inp in_ax out_ax ft iz oz eh s = (Inr (m, N, c), s1)"
      using Pair Inr v by simp
    from resolve_request_inv[OF ok] obtain m0 s0 where
      sel: "select_mode inp in_ax out_ax s = (Inr (m0, N), s0)" and m: "m = MODE_RR \<or> m = m0"
      by blast
    from sel select_mode_empty[OF rr, of inp out_ax s] have "m0 = MODE_RR" by simp
    with m have mm: "m = MODE_RR" by auto
    show ?thesis
      using gfft_unfold[OF ok, of E W alpha] mm ok
      by (simp add: run_mode_def pthen_def)
  qed
qed

text \<open>
  Claim C5. With an empty \<^verbatim>\<open>in_ax\<close> the mode is MODE_RR and \<open>N\<close> is the rank of the
  input field, whatever \<^verbatim>\<open>out_ax\<close> is; a non-empty \<^verbatim>\<open>out_ax\<close> adds one warning and
  is otherwise ignored (the call is the call without \<^verbatim>\<open>out_ax\<close>, run after the
  warning); and a request that passes validation runs the regular-to-regular
  pipeline.
\<close>

theorem empty_in_ax_is_regular_to_regular:
  assumes rr: "py_len in_ax = 0"
  shows "select_mode inp in_ax out_ax s =
           (Inr (MODE_RR, ndim (cells s inp)),
            if py_len out_ax \<noteq> 0
            then s\<lparr>warnings := warnings s @
                   [''in_ax is empty, indicating regular to regular '' @
                    ''transformation is requested, but out_ax is not empty. '' @
                    ''Ignoring out_ax and proceeding with regular to regular mode.'']\<rparr>
            else s) \<and>
         gfft E inp in_ax out_ax ft iz oz eh W alpha s =
           gfft E inp in_ax (Coords []) ft iz oz eh W alpha
             (if py_len out_ax \<noteq> 0
              then s\<lparr>warnings := warnings s @
                   [''in_ax is empty, indicating regular to regular '' @
                    ''transformation is requested, but out_ax is not empty. '' @
                    ''Ignoring out_ax and proceeding with regular to regular mode.'']\<rparr>
              else s) \<and>
         (\<forall>m N c s1. resolve_request inp in_ax out_ax ft iz oz eh s = (Inr (m, N, c), s1) \<longrightarrow>
            m = MODE_RR \<and> N = ndim (cells s inp) \<and>
            gfft E inp in_ax out_ax ft iz oz eh W alpha s = rr_transform E c inp s1)"
proof (intro conjI allI impI)
  show "select_mode inp in_ax out_ax s =
           (Inr (MODE_RR, ndim (cells s inp)),
            if py_len out_ax \<noteq> 0
            then s\<lparr>warnings := warnings s @
                   [''in_ax is empty, indicating regular to regular '' @
                    ''transformation is requested, but out_ax is not empty. '' @
                    ''Ignoring out_ax and proceeding with regular to regular mode.'']\<rparr>
            else s)"
    by (rule select_mode_empty[OF rr])
next
  show "gfft E inp in_ax out_ax ft iz oz eh W alpha s =
           gfft E inp in_ax (Coords []) ft iz oz eh W alpha
             (if py_len out_ax \<noteq> 0
              then s\<lparr>warnings := warnings s @
                   [''in_ax is empty, indicating regular to regular '' @
                    ''transformation is requested, but out_ax is not empty. '' @
                    ''Ignoring out_ax and proceeding with regular to regular mode.'']\<rparr>
              else s)"
    unfolding gfft_empty_rr[OF rr] pthen_def
    by (simp only: resolve_request_empty[OF rr, of inp out_ax ft iz oz eh s])
next
  fix m N c s1
  assume ok: "resolve_request inp in_ax out_ax ft iz oz eh s = (Inr (m, N, c), s1)"
  from resolve_request_inv[OF ok] obtain m0 s0 where
    sel: "select_mode inp in_ax out_ax s = (Inr (m0, N), s0)" and m: "m = MODE_RR \<or> m = m0"
    by blast
  from sel select_mode_empty[OF rr, of inp out_ax s] have "m0 = MODE_RR" "N = ndim (cells s inp)"
    by simp_all
  with m have mm: "m = MODE_RR" by auto
  show "m = MODE_RR" by (rule mm)
  show "N = ndim (cells s inp)" by fact
  show "gfft E inp in_ax out_ax ft iz oz eh W alpha s = rr_transform E c inp s1"
    using gfft_unfold[OF ok] mm by (simp add: run_mode_def)
qed

text \<open>Claim C5 at a concrete request.\<close>

theorem empty_in_ax_is_regular_to_regular_witness:
  "select_mode 0 (Coords []) (Grid [(PyFloat 1, PyInt 4)]) heap0 =
     (Inr (MODE_RR, 2),
      heap0\<lparr>warnings :=
        [''in_ax is empty, indicating regular to regular transformation is requested, but out_ax is not empty. Ignoring out_ax and proceeding with regular to regular mode.'']\<rparr>)"
proof -
  have rr: "py_len (Coords []) = 0" by simp
  from empty_in_ax_is_regular_to_regular[OF rr, of 0 "Grid [(PyFloat 1, PyInt 4)]" heap0]
  have "select_mode 0 (Coords []) (Grid [(PyFloat 1, PyInt 4)]) heap0 =
     (Inr (MODE_RR, ndim (cells heap0 0)),
      if py_len (Grid [(PyFloat 1, PyInt 4)]) \<noteq> 0
            then heap0\<lparr>warnings := warnings heap0 @
                   [''in_ax is empty, indicating regular to regular '' @
                    ''transformation is requested, but out_ax is not empty. '' @
                    ''Ignoring out_ax and proceeding with regular to regular mode.'']\<rparr>
            else heap0)"
    by blast
  then show ?thesis by (simp add: cells_heap0_0 ndim_field22) (simp add: heap0_def)
qed

section \<open>The paired form on the input side\<close>

lemma resolve_paired_out_ax_request:
  "resolve_request 0 (Coords [1]) (Paired [1] [(PyFloat 1, PyInt 4)]) (Single ''fft'') (Single True)
     (Single True) (Single False) heap0 =
   (Inr (MODE_II, 1,
     \<lparr>do_fft = True, do_ifft = False, fftaxes = None, ifftaxes = Some [],
      do_preshift = True, do_postshift = True, preshift_axes = None, postshift_axes = None,
      hermitianized_axes = [False]\<rparr>), heap0)"
  by (simp add: resolve_eval)

text \<open>
  Claim C1 at a 1-D fully-irregular request, run with the paired form on either
  side. With \<^verbatim>\<open>in_ax = ([x], [(1., 4)])\<close> and \<^verbatim>\<open>out_ax = [u]\<close> the call raises
  "Defining grid on in_ax in MODE_II not yet supported..." (lines 825-827) and
  returns no array; the same request with the paired form on the output side runs
  the pipeline and returns one.
\<close>

theorem paired_in_ax_request_raises:
  "fst (gfft echo_externals 0 (Paired [1] [(PyFloat 1, PyInt 4)]) (Coords [1]) (Single ''fft'')
          (Single True) (Single True) (Single False) 6 (PyFloat (3 / 2)) heap0) =
     Inl (Exception ''Defining grid on in_ax in MODE_II not yet supported...'') \<and>
   (\<exists>r. fst (gfft echo_externals 0 (Coords [1]) (Paired [1] [(PyFloat 1, PyInt 4)]) (Single ''fft'')
          (Single True) (Single True) (Single False) 6 (PyFloat (3 / 2)) heap0) = Inr r)"
proof
  show "fst (gfft echo_externals 0 (Paired [1] [(PyFloat 1, PyInt 4)]) (Coords [1]) (Single ''fft'')
          (Single True) (Single True) (Single False) 6 (PyFloat (3 / 2)) heap0) =
     Inl (Exception ''Defining grid on in_ax in MODE_II not yet supported...'')"
    unfolding gfft_unfold[OF resolve_paired_in_ax_request]
    by (simp add: run_mode_def ii_transform_def raise_def)
next
  show "\<exists>r. fst (gfft echo_externals 0 (Coords [1]) (Paired [1] [(PyFloat 1, PyInt 4)]) (Single ''fft'')
          (Single True) (Single True) (Single False) 6 (PyFloat (3 / 2)) heap0) = Inr r"
    unfolding gfft_unfold[OF resolve_paired_out_ax_request]
    by (simp add: run_mode_def ii_transform_def ii_grids_def spec_at_def axis_block_def
          work_spacing_def py_div_def ethen_def Let_def shifted_def size_int_swapped_def
          centred_origin_def ii_grid_call_def axis_arg_def bool_at_def work_args_def
          ii_degrid_corr_call_def fine_spacing_def fine_args_def ii_zeros_def ii_pad_def
          pad_from_def ii_grid_corr_call_def ii_degrid_call_def call_gridding_def call_copy_def
          call_divide_def call_zeros_def call_setslice_def shift_transform_shift_def
          call_fftshift_def call_fftn_def call_ifftn_def pthen_def lift_def ret_def
          read_array_def new_array_def write_array_def echo_externals_def fftshift_def
          heap0_def)
qed

section \<open>The arrays of the caller\<close>

lemma keeps_ret: "Q a \<Longrightarrow> keeps n Q (ret a)"
  by (simp add: keeps_def ret_def)

lemma keeps_raise: "keeps n Q (raise e)"
  by (simp add: keeps_def raise_def)

lemma keeps_lift: "(\<And>v. r = Inr v \<Longrightarrow> Q v) \<Longrightarrow> keeps n Q (lift r)"
  by (simp add: keeps_def lift_def)

lemma keeps_warn: "keeps n (\<lambda>u. True) (warn msg)"
  by (simp add: keeps_def warn_def)

lemma keeps_read: "keeps n (\<lambda>u. True) (read_array a)"
  by (simp add: keeps_def read_array_def)

lemma keeps_new: "keeps n (\<lambda>r. n \<le> r) (new_array v)"
  by (simp add: keeps_def new_array_def)

lemma keeps_write: "n \<le> t \<Longrightarrow> keeps n (\<lambda>u. True) (write_array t v)"
  by (simp add: keeps_def write_array_def)

lemma keeps_weaken: "keeps n P p \<Longrightarrow> (\<And>v. P v \<Longrightarrow> Q v) \<Longrightarrow> keeps n Q p"
  by (simp add: keeps_def)

lemma keeps_pthen:
  assumes m: "keeps n P m" and f: "\<And>v. P v \<Longrightarrow> keeps n Q (f v)"
  shows "keeps n Q (pthen m f)"
  unfolding keeps_def
proof (intro allI impI)
  fix s :: heap assume n: "n \<le> nxt s"
  obtain r s1 where ms: "m s = (r, s1)" by (cases "m s")
  from m n ms have s1: "nxt s \<le> nxt s1" "\<forall>a<n. cells s1 a = cells s a" "\<forall>v. r = Inr v \<longrightarrow> P v"
    by (auto simp: keeps_def dest!: spec[of _ s])
  show "nxt s \<le> nxt (snd (pthen m f s)) \<and> (\<forall>a<n. cells (snd (pthen m f s)) a = cells s a) \<and>
        (\<forall>v. fst (pthen m f s) = Inr v \<longrightarrow> Q v)"
  proof (cases r)
    case (Inl e)
    with ms s1 show ?thesis by (simp add: pthen_def)
  next
    case (Inr v)
    with s1 have "P v" by simp
    from f[OF this] have k: "keeps n Q (f v)" .
    have n1: "n \<le> nxt s1" using n s1 by simp
    from k n1 have "nxt s1 \<le> nxt (snd (f v s1))" "\<forall>a<n. cells (snd (f v s1)) a = cells s1 a"
      "\<forall>w. fst (f v s1) = Inr w \<longrightarrow> Q w"
      by (auto simp: keeps_def)
    with ms Inr s1 show ?thesis by (simp add: pthen_def)
  qed
qed

lemma keeps_if: "keeps n Q p \<Longrightarrow> keeps n Q q \<Longrightarrow> keeps n Q (if b then p else q)"
  by simp

lemma keeps_alloc: "keeps n (\<lambda>r. n \<le> r) (pthen (lift r) new_array)"
  by (rule keeps_pthen[where P="\<lambda>u. True"]) (auto intro: keeps_lift keeps_new)

lemma keeps_call_gridding: "keeps n (\<lambda>r. n \<le> r) (call_gridding E name args)"
  using keeps_alloc[of n] by (simp add: keeps_def call_gridding_def)

lemma keeps_read_alloc: "keeps n (\<lambda>r. n \<le> r) (pthen (read_array a) (\<lambda>x. pthen (lift (g x)) new_array))"
  by (rule keeps_pthen[OF keeps_read]) (rule keeps_alloc)

lemma keeps_call_fftshift: "keeps n (\<lambda>r. n \<le> r) (call_fftshift a axes)"
  unfolding call_fftshift_def by (rule keeps_read_alloc)

lemma keeps_call_fftn: "keeps n (\<lambda>r. n \<le> r) (call_fftn E a axes)"
  unfolding call_fftn_def by (rule keeps_read_alloc)

lemma keeps_call_ifftn: "keeps n (\<lambda>r. n \<le> r) (call_ifftn E a axes)"
  unfolding call_ifftn_def by (rule keeps_read_alloc)

lemma keeps_call_getslice: "keeps n (\<lambda>r. n \<le> r) (call_getslice E a sl)"
  unfolding call_getslice_def by (rule keeps_read_alloc)

lemma keeps_call_copy: "keeps n (\<lambda>r. n \<le> r) (call_copy a)"
  unfolding call_copy_def by (rule keeps_pthen[OF keeps_read]) (rule keeps_new)

lemma keeps_call_zeros: "keeps n (\<lambda>r. n \<le> r) (call_zeros E dims)"
  unfolding call_zeros_def by (rule keeps_alloc)

lemma keeps_call_divide: "keeps n (\<lambda>r. n \<le> r) (call_divide E a b)"
  unfolding call_divide_def
  by (rule keeps_pthen[OF keeps_read]) (rule keeps_read_alloc)

lemma keeps_call_setslice: "n \<le> t \<Longrightarrow> keeps n (\<lambda>u. True) (call_setslice E t sl a)"
  unfolding call_setslice_def
  by (intro keeps_pthen[OF keeps_read] keeps_pthen[where P="\<lambda>u. True"] keeps_lift keeps_write) auto

lemmas keeps_calls = keeps_call_gridding keeps_call_fftshift keeps_call_fftn keeps_call_ifftn
  keeps_call_getslice keeps_call_copy keeps_call_zeros keeps_call_divide

lemma keeps_lift_any: "keeps n (\<lambda>u. True) (lift r)"
  by (rule keeps_lift) simp

lemma keeps_shift_transform_shift: "keeps n (\<lambda>r. n \<le> r) (shift_transform_shift E c a)"
  unfolding shift_transform_shift_def
  apply (rule keeps_pthen[where P="\<lambda>u. True"])
   apply (auto intro: keeps_ret keeps_weaken[OF keeps_call_fftshift])[1]
  apply (rule keeps_pthen[where P="\<lambda>r. n \<le> r"])
   apply (auto intro: keeps_calls)[1]
  apply (rule keeps_pthen[where P="\<lambda>r. n \<le> r"])
   apply (auto intro: keeps_calls keeps_ret)[1]
  apply (rule keeps_pthen[where P="\<lambda>r. n \<le> r"])
   apply (auto intro: keeps_calls keeps_ret)[1]
  apply (auto intro: keeps_ret)
  done

lemma keeps_ir_transform: "keeps n (\<lambda>r. n \<le> r) (ir_transform E c N inp in_ax out_ax W alpha)"
  unfolding ir_transform_def
  by (intro keeps_pthen[where P="\<lambda>r. n \<le> r", OF keeps_call_copy]
            keeps_pthen[where P="\<lambda>r. n \<le> r", OF keeps_call_gridding]
            keeps_pthen[where P="\<lambda>r. n \<le> r", OF keeps_call_getslice]
            keeps_pthen[where P="\<lambda>r. n \<le> r", OF keeps_shift_transform_shift]
            keeps_pthen[where P="\<lambda>u. True", OF keeps_lift_any]
            keeps_call_divide)

lemma keeps_ri_transform: "keeps n (\<lambda>r. n \<le> r) (ri_transform E c N inp in_ax out_ax W alpha)"
  unfolding ri_transform_def
  by (intro keeps_pthen[where P="\<lambda>r. n \<le> r", OF keeps_call_copy]
            keeps_pthen[where P="\<lambda>r. n \<le> r", OF keeps_call_gridding]
            keeps_pthen[where P="\<lambda>r. n \<le> r", OF keeps_call_divide]
            keeps_pthen[where P="\<lambda>r. n \<le> r", OF keeps_call_zeros]
            keeps_pthen[where P="\<lambda>u. True", OF keeps_call_setslice]
            keeps_pthen[where P="\<lambda>r. n \<le> r", OF keeps_shift_transform_shift]
            keeps_pthen[where P="\<lambda>u. True", OF keeps_lift_any]
            keeps_call_gridding)

lemma keeps_ii_transform: "keeps n (\<lambda>r. n \<le> r) (ii_transform E c N inp in_ax out_ax W alpha)"
  unfolding ii_transform_def
  apply (cases out_ax; simp add: keeps_raise)
  apply (intro impI keeps_pthen[where P="\<lambda>r. n \<le> r", OF keeps_call_copy]
            keeps_pthen[where P="\<lambda>r. n \<le> r", OF keeps_call_gridding]
            keeps_pthen[where P="\<lambda>r. n \<le> r", OF keeps_call_divide]
            keeps_pthen[where P="\<lambda>r. n \<le> r", OF keeps_call_zeros]
            keeps_pthen[where P="\<lambda>u. True", OF keeps_call_setslice]
            keeps_pthen[where P="\<lambda>r. n \<le> r", OF keeps_shift_transform_shift]
            keeps_pthen[where P="\<lambda>u. True", OF keeps_lift_any]
            keeps_call_gridding)
  apply assumption
  done

lemma keeps_select_mode: "keeps n (\<lambda>u. True) (select_mode inp in_ax out_ax)"
  unfolding select_mode_def
  by (auto intro!: keeps_pthen[where P="\<lambda>u. True"] keeps_read keeps_warn keeps_ret keeps_raise)

lemma keeps_resolve_request:
  "keeps n (\<lambda>u. True) (resolve_request inp in_ax out_ax ft iz oz eh)"
  unfolding resolve_request_def
  by (auto intro!: keeps_pthen[where P="\<lambda>u. True"] keeps_select_mode keeps_lift_any keeps_warn
        keeps_ret keeps_raise)

lemma keeps_run_mode: "keeps n (\<lambda>r. n \<le> r) (run_mode E m N c inp in_ax out_ax W alpha)"
  unfolding run_mode_def rr_transform_def
  by (cases m)
     (simp_all add: keeps_shift_transform_shift keeps_ir_transform keeps_ri_transform
        keeps_ii_transform)

lemma keeps_gfft: "keeps n (\<lambda>r. n \<le> r) (gfft E inp in_ax out_ax ft iz oz eh W alpha)"
  unfolding gfft_def
  by (rule keeps_pthen[OF keeps_resolve_request]) (auto simp: keeps_run_mode split: prod.splits)

text \<open>
  Claim C8. Whatever the request and whether the call returns or raises, every array
  that was on the heap before the call is unchanged after it, and an array the call
  returns is at an address that was not in use before. \<open>gfft\<close> is a function of its
  arguments and the heap, so there is no other state for a call to leave behind.
  (The collaborators take and return array values: by their type they modify no
  argument.)
\<close>

theorem gfft_leaves_caller_arrays_unchanged:
  "(\<forall>a<nxt s. cells (snd (gfft E inp in_ax out_ax ft iz oz eh W alpha s)) a = cells s a) \<and>
   (\<forall>r. fst (gfft E inp in_ax out_ax ft iz oz eh W alpha s) = Inr r \<longrightarrow> nxt s \<le> r)"
proof -
  have "keeps (nxt s) (\<lambda>r. nxt s \<le> r) (gfft E inp in_ax out_ax ft iz oz eh W alpha)"
    by (rule keeps_gfft)
  then show ?thesis
    unfolding keeps_def by (elim allE[of _ s]) simp
qed

text \<open>Claim C8 at a concrete request.\<close>

theorem gfft_leaves_caller_arrays_unchanged_witness:
  "cells (snd (gfft echo_externals 0 (Coords []) (Coords []) (Single ''fft'')
             (Single True) (Single True) (Single False) 6 (PyFloat (3 / 2)) heap0)) 0 = field22 \<and>
   cells (snd (gfft echo_externals 0 (Coords []) (Coords []) (Single ''fft'')
             (Single True) (Single True) (Single False) 6 (PyFloat (3 / 2)) heap0)) 1 =
     Array [Scalar 0, Scalar 1]"
  using gfft_leaves_caller_arrays_unchanged[of heap0 echo_externals 0 "Coords []" "Coords []" "Single ''fft''" "Single True"
      "Single True" "Single False" 6 "PyFloat (3 / 2)"]
  by (simp add: heap0_def)

section \<open>Requests without a transform\<close>

lemma shift_only_run:
  assumes "\<not> do_fft c" "\<not> do_ifft c"
  shows "(\<forall>y. shift_only c (cells s inp) = Inr y \<longrightarrow>
            (\<exists>r. fst (shift_transform_shift E c inp s) = Inr r \<and> nxt s \<le> r \<and>
                 cells (snd (shift_transform_shift E c inp s)) r = y)) \<and>
         (\<forall>e. shift_only c (cells s inp) = Inl e \<longrightarrow>
            fst (shift_transform_shift E c inp s) = Inl e)"
  using assms
  by (auto simp: shift_only_def shift_transform_shift_def call_fftshift_def call_copy_def
        pthen_def ret_def lift_def read_array_def new_array_def ethen_def
        split: sum.splits if_splits)

lemma no_direction_config:
  assumes nd: "no_direction_requested ft"
    and ok: "resolve_request inp in_ax out_ax ft iz oz eh s = (Inr (m, N, c), s1)"
  shows "m = MODE_RR \<and> \<not> do_fft c \<and> \<not> do_ifft c"
proof -
  from resolve_request_inv[OF ok]
  have "resolve_ftmachine ft N =
             Inr \<lparr>do_fft = do_fft c, do_ifft = do_ifft c,
                  fftaxes = fftaxes c, ifftaxes = ifftaxes c\<rparr>" by blast
  from resolve_ftmachine_none[OF nd this]
  have d: "\<lparr>do_fft = do_fft c, do_ifft = do_ifft c,
                  fftaxes = fftaxes c, ifftaxes = ifftaxes c\<rparr> = no_directions" .
  then have "nothing_requested \<lparr>do_fft = do_fft c, do_ifft = do_ifft c,
                  fftaxes = fftaxes c, ifftaxes = ifftaxes c\<rparr>" by simp
  from resolve_request_mode[OF ok this] have "m = MODE_RR" .
  moreover from d have "\<not> do_fft c \<and> \<not> do_ifft c" by (simp add: no_directions_def)
  ultimately show ?thesis by simp
qed

lemma no_direction_run:
  assumes nd: "no_direction_requested ft"
    and ok: "resolve_request inp in_ax out_ax ft iz oz eh s = (Inr (m, N, c), s1)"
  shows "(\<forall>y. shift_only c (cells s inp) = Inr y \<longrightarrow>
            (\<exists>r. fst (gfft E inp in_ax out_ax ft iz oz eh W alpha s) = Inr r \<and> nxt s \<le> r \<and>
                 cells (snd (gfft E inp in_ax out_ax ft iz oz eh W alpha s)) r = y)) \<and>
         (\<forall>e. shift_only c (cells s inp) = Inl e \<longrightarrow>
            fst (gfft E inp in_ax out_ax ft iz oz eh W alpha s) = Inl e)"
proof -
  from no_direction_config[OF nd ok] have m: "m = MODE_RR" and c: "\<not> do_fft c" "\<not> do_ifft c"
    by simp_all
  from resolve_request_inv[OF ok] have fr: "cells s1 = cells s" "nxt s1 = nxt s" by auto
  have g: "gfft E inp in_ax out_ax ft iz oz eh W alpha s = shift_transform_shift E c inp s1"
    using gfft_unfold[OF ok] m by (simp add: run_mode_def rr_transform_def)
  show ?thesis
    using shift_only_run[OF c, of s1 inp E] fr by (simp add: g)
qed

lemma shift_only_one_axis:
  assumes "k < ndim x"
    and "(do_preshift c, preshift_axes c) = (True, Some [k]) \<and>
         (do_postshift c, postshift_axes c) = (False, Some []) \<or>
         (do_preshift c, preshift_axes c) = (False, Some []) \<and>
         (do_postshift c, postshift_axes c) = (True, Some [k])"
  shows "shift_only c x = Inr (shift_axis k x)"
  using assms by (auto simp: shift_only_def ethen_def fftshift_one_axis)

lemma shift_only_every_axis:
  assumes "rect x" "\<forall>n \<in> set (shape x). even n"
    and "do_preshift c" "preshift_axes c = None \<or> preshift_axes c = Some [0..<ndim x]"
    and "do_postshift c" "postshift_axes c = None \<or> postshift_axes c = Some [0..<ndim x]"
  shows "shift_only c x = Inr x"
proof -
  have pre: "fftshift x (preshift_axes c) = Inr (shift_all x)"
    using assms(1,4) by (auto simp: fftshift_None fftshift_all_axes)
  from shift_all_shape[OF assms(1)] have r: "rect (shift_all x)" and n: "ndim (shift_all x) = ndim x"
    by (simp_all add: ndim_def)
  have post: "fftshift (shift_all x) (postshift_axes c) = Inr (shift_all (shift_all x))"
    using r n assms(6) fftshift_all_axes[OF r] by (auto simp: fftshift_None)
  show ?thesis
    using assms(3,5) pre post shift_all_twice[OF assms(1,2)] by (simp add: shift_only_def ethen_def)
qed

text \<open>
  Claim C4, as amended. When no entry of \<^verbatim>\<open>ftmachine\<close> asks for a transform and
  the request passes validation, the mode is MODE_RR, whatever the axes said, and
  where the shifts are defined on the input the call returns a new array holding
  what the shifts alone make of it. In particular, when zero-centering is requested
  on one axis \<open>k\<close> alone (on the input side or on the output side, and on no axis on
  the other side) and the input array has that axis, the result is the input rolled
  by half its length along axis \<open>k\<close>, every other axis as it was.
\<close>

theorem no_direction_is_shift_only:
  assumes nd: "no_direction_requested ft"
    and ok: "resolve_request inp in_ax out_ax ft iz oz eh s = (Inr (m, N, c), s1)"
  shows "m = MODE_RR \<and>
         (\<forall>y. shift_only c (cells s inp) = Inr y \<longrightarrow>
            (\<exists>r. fst (gfft E inp in_ax out_ax ft iz oz eh W alpha s) = Inr r \<and> nxt s \<le> r \<and>
                 cells (snd (gfft E inp in_ax out_ax ft iz oz eh W alpha s)) r = y)) \<and>
         (\<forall>k. k < ndim (cells s inp) \<and>
               (only_axis N k iz \<and> no_axis N oz \<or> no_axis N iz \<and> only_axis N k oz) \<longrightarrow>
            (\<exists>r. fst (gfft E inp in_ax out_ax ft iz oz eh W alpha s) = Inr r \<and> nxt s \<le> r \<and>
                 cells (snd (gfft E inp in_ax out_ax ft iz oz eh W alpha s)) r =
                   shift_axis k (cells s inp)))"
proof -
  note run = no_direction_run[OF nd ok, of E W alpha]
  have one: "\<exists>r. fst (gfft E inp in_ax out_ax ft iz oz eh W alpha s) = Inr r \<and> nxt s \<le> r \<and>
                 cells (snd (gfft E inp in_ax out_ax ft iz oz eh W alpha s)) r =
                   shift_axis k (cells s inp)"
    if k: "k < ndim (cells s inp)"
      and ax: "only_axis N k iz \<and> no_axis N oz \<or> no_axis N iz \<and> only_axis N k oz" for k
  proof -
    from resolve_request_inv[OF ok]
    have pre: "resolve_zero_center ''in_zero_center is a list with invalid length'' iz N =
             Inr (do_preshift c, preshift_axes c)"
      and post: "resolve_zero_center ''out_zero_center is a list with invalid length'' oz N =
             Inr (do_postshift c, postshift_axes c)" by auto
    from ax pre post
    have "(do_preshift c, preshift_axes c) = (True, Some [k]) \<and>
         (do_postshift c, postshift_axes c) = (False, Some []) \<or>
         (do_preshift c, preshift_axes c) = (False, Some []) \<and>
         (do_postshift c, postshift_axes c) = (True, Some [k])"
      by (auto simp: resolve_zero_center_only resolve_zero_center_no)
    from shift_only_one_axis[OF k this] run show ?thesis by blast
  qed
  from no_direction_config[OF nd ok] run one show ?thesis by blast
qed

text \<open>
  Claim C4, as amended, at a request with two coordinate axes and two grid tuples:
  the axes say irregular to regular, the mode is forced to MODE_RR, and the 2 by 2
  field comes back rolled along axis 1.
\<close>

theorem no_direction_is_shift_only_witness:
  "\<exists>r. fst (gfft echo_externals 0 (Coords [1, 1])
             (Grid [(PyFloat 1, PyInt 4), (PyFloat 1, PyInt 4)]) (Single ''none'')
             (PerAxis [False, True]) (Single False) (Single False) 6 (PyFloat (3 / 2)) heap0) = Inr r \<and>
       cells (snd (gfft echo_externals 0 (Coords [1, 1])
             (Grid [(PyFloat 1, PyInt 4), (PyFloat 1, PyInt 4)]) (Single ''none'')
             (PerAxis [False, True]) (Single False) (Single False) 6 (PyFloat (3 / 2)) heap0)) r =
         Array [Array [Scalar 2, Scalar 1], Array [Scalar 4, Scalar 3]]"
proof -
  have ax: "only_axis 2 1 (PerAxis [False, True]) \<and> no_axis 2 (Single False)"
    by (simp add: only_axis_def no_axis_def numeral_2_eq_2)
  have k: "1 < ndim (cells heap0 0)" by (simp add: cells_heap0_0 ndim_field22)
  have sh: "shift_axis 1 (cells heap0 0) = Array [Array [Scalar 2, Scalar 1], Array [Scalar 4, Scalar 3]]"
    by (simp add: cells_heap0_0 field22_def roll_def)
  from no_direction_is_shift_only[OF no_direction_none resolve_forced_request,
      of echo_externals 6 "PyFloat (3 / 2)"] ax k
  have "\<exists>r. fst (gfft echo_externals 0 (Coords [1, 1])
             (Grid [(PyFloat 1, PyInt 4), (PyFloat 1, PyInt 4)]) (Single ''none'')
             (PerAxis [False, True]) (Single False) (Single False) 6 (PyFloat (3 / 2)) heap0) = Inr r \<and>
       nxt heap0 \<le> r \<and>
       cells (snd (gfft echo_externals 0 (Coords [1, 1])
             (Grid [(PyFloat 1, PyInt 4), (PyFloat 1, PyInt 4)]) (Single ''none'')
             (PerAxis [False, True]) (Single False) (Single False) 6 (PyFloat (3 / 2)) heap0)) r =
         shift_axis 1 (cells heap0 0)"
    by blast
  then show ?thesis unfolding sh by blast
qed

text \<open>
  Claim C4 as stated fails at two requests without a transform and with
  zero-centering on one axis. With four coordinate axes the call raises at the check
  of the dimensionality (lines 254-256), which comes before the mode is forced to
  MODE_RR (lines 293-298). With two coordinate axes, a flat input and zero-centering
  on axis 1, the shift of line 405 raises, since the input has no axis 1.
\<close>

theorem no_direction_is_shift_only_counterexample:
  "gfft echo_externals 1 (Coords [1, 1, 1, 1])
     (Grid [(PyFloat 1, PyInt 4), (PyFloat 1, PyInt 4), (PyFloat 1, PyInt 4), (PyFloat 1, PyInt 4)])
     (Single ''none'') (PerAxis [True, False, False, False]) (Single False) (Single False)
     6 (PyFloat (3 / 2)) heap0 =
   (Inl (Exception ''Gridding has been requested for an unsupported number of dimensions!''), heap0) \<and>
   fst (gfft echo_externals 1 (Coords [1, 1])
     (Grid [(PyFloat 1, PyInt 4), (PyFloat 1, PyInt 4)])
     (Single ''none'') (PerAxis [False, True]) (Single False) (Single False)
     6 (PyFloat (3 / 2)) heap0) = Inl IndexError"
proof
  show "gfft echo_externals 1 (Coords [1, 1, 1, 1])
     (Grid [(PyFloat 1, PyInt 4), (PyFloat 1, PyInt 4), (PyFloat 1, PyInt 4), (PyFloat 1, PyInt 4)])
     (Single ''none'') (PerAxis [True, False, False, False]) (Single False) (Single False)
     6 (PyFloat (3 / 2)) heap0 =
   (Inl (Exception ''Gridding has been requested for an unsupported number of dimensions!''), heap0)"
    by (simp add: gfft_def resolve_request_def select_mode_def pthen_def ret_def lift_def
          check_dims_def)
next
  have r: "resolve_request 1 (Coords [1, 1]) (Grid [(PyFloat 1, PyInt 4), (PyFloat 1, PyInt 4)])
     (Single ''none'') (PerAxis [False, True]) (Single False) (Single False) heap0 =
   (Inr (MODE_RR, 2,
     \<lparr>do_fft = False, do_ifft = False, fftaxes = Some [], ifftaxes = Some [],
      do_preshift = True, do_postshift = False, preshift_axes = Some [1], postshift_axes = Some [],
      hermitianized_axes = [False, False]\<rparr>),
    heap0\<lparr>warnings := [''No Fourier transformation requested, only shifting will be performed!'']\<rparr>)"
    by (simp add: resolve_eval)
  show "fst (gfft echo_externals 1 (Coords [1, 1])
     (Grid [(PyFloat 1, PyInt 4), (PyFloat 1, PyInt 4)])
     (Single ''none'') (PerAxis [False, True]) (Single False) (Single False)
     6 (PyFloat (3 / 2)) heap0) = Inl IndexError"
    unfolding gfft_unfold[OF r]
    by (simp add: run_mode_def rr_transform_def shift_transform_shift_def call_fftshift_def
          pthen_def read_array_def lift_def fftshift_def heap0_def)
qed

text \<open>
  Claim C7. For an array whose length is even along every axis, a regular-to-regular
  call with no transform requested and zero-centering on every axis on both sides
  returns a new array equal to the input.
\<close>

theorem double_shift_is_identity_on_even_axes:
  assumes rr: "py_len in_ax = 0"
    and nd: "no_direction_requested ft"
    and ok: "resolve_request inp in_ax out_ax ft iz oz eh s = (Inr (m, N, c), s1)"
    and rect: "rect (cells s inp)"
    and ev: "\<forall>n \<in> set (shape (cells s inp)). even n"
    and iz: "every_axis N iz" and oz: "every_axis N oz"
  shows "\<exists>r. fst (gfft E inp in_ax out_ax ft iz oz eh W alpha s) = Inr r \<and> nxt s \<le> r \<and>
             cells (snd (gfft E inp in_ax out_ax ft iz oz eh W alpha s)) r = cells s inp"
proof -
  from resolve_request_inv[OF ok] obtain m0 s0 where
    sel: "select_mode inp in_ax out_ax s = (Inr (m0, N), s0)" and
    dims: "check_dims m0 N = Inr ()" and
    pre: "resolve_zero_center ''in_zero_center is a list with invalid length'' iz N =
             Inr (do_preshift c, preshift_axes c)" and
    post: "resolve_zero_center ''out_zero_center is a list with invalid length'' oz N =
             Inr (do_postshift c, postshift_axes c)" by blast
  from sel select_mode_empty[OF rr, of inp out_ax s] have N: "N = ndim (cells s inp)" by simp
  from dims have pos: "0 < N" by (auto simp: check_dims_def split: if_splits)
  from resolve_zero_center_every[OF iz pos, of "''in_zero_center is a list with invalid length''"] pre
  have p1: "do_preshift c" "preshift_axes c = None \<or> preshift_axes c = Some [0..<ndim (cells s inp)]"
    by (auto simp: N)
  from resolve_zero_center_every[OF oz pos, of "''out_zero_center is a list with invalid length''"] post
  have p2: "do_postshift c" "postshift_axes c = None \<or> postshift_axes c = Some [0..<ndim (cells s inp)]"
    by (auto simp: N)
  from shift_only_every_axis[OF rect ev p1 p2] no_direction_run[OF nd ok, of E W alpha]
  show ?thesis by blast
qed

text \<open>Claim C7 at a concrete request.\<close>

theorem double_shift_is_identity_on_even_axes_witness:
  "\<exists>r. fst (gfft echo_externals 0 (Coords []) (Coords []) (Single ''none'')
             (Single True) (PerAxis [True, True]) (Single False) 6 (PyFloat (3 / 2)) heap0) = Inr r \<and>
       cells (snd (gfft echo_externals 0 (Coords []) (Coords []) (Single ''none'')
             (Single True) (PerAxis [True, True]) (Single False) 6 (PyFloat (3 / 2)) heap0)) r =
         Array [Array [Scalar 1, Scalar 2], Array [Scalar 3, Scalar 4]]"
proof -
  have rect: "rect (cells heap0 0)" by (simp add: cells_heap0_0 field22_def)
  have ev: "\<forall>n \<in> set (shape (cells heap0 0)). even n" by (simp add: cells_heap0_0 field22_def)
  have a: "every_axis 2 (Single True)" "every_axis 2 (PerAxis [True, True])"
    by (simp_all add: every_axis_def numeral_2_eq_2)
  have rr: "py_len (Coords []) = 0" by simp
  from double_shift_is_identity_on_even_axes[OF rr no_direction_none resolve_every_axis_request rect ev a, of echo_externals 6 "PyFloat (3 / 2)"]
  show ?thesis by (auto simp: cells_heap0_0 field22_def)
qed

section \<open>The size of the working grid\<close>

text \<open>
  In MODE_IR and MODE_RI every axis gets the working size \<^verbatim>\<open>int(alpha*Nx)\<close>, which is
  the floor of the product when the product is not negative.
\<close>

lemma axis_block_size:
  "axis_block size_expr f w spec alpha = Inr g \<Longrightarrow> n_work g = size_expr alpha (n_fin g)"
  by (cases spec) (auto simp: axis_block_def ethen_def Let_def split: sum.splits)

lemma ir_grids_sizes:
  assumes "ir_grids c N out_ax alpha = Inr gs"
  shows "\<forall>g \<in> set (grid_list gs). n_work g = size_int alpha (n_fin g)"
  using assms unfolding ir_grids_def Let_def ethen_def
  by (auto split: if_splits sum.splits dest!: axis_block_size)

lemma ri_grids_sizes:
  assumes "ri_grids c N in_ax alpha = Inr gs"
  shows "\<forall>g \<in> set (grid_list gs). n_work g = size_int alpha (n_fin g)"
  using assms unfolding ri_grids_def Let_def ethen_def
  by (auto split: if_splits sum.splits dest!: axis_block_size)

lemma size_int_floor:
  "0 \<le> py_real alpha * py_real nx \<Longrightarrow> size_int alpha nx = PyInt \<lfloor>py_real alpha * py_real nx\<rfloor>"
  by (cases alpha; cases nx) (simp_all add: size_int_def flip: of_int_mult)

lemma gridded_size_is_floor:
  assumes "ir_grids c N ax alpha = Inr gs \<or> ri_grids c N ax alpha = Inr gs"
    and "g \<in> set (grid_list gs)" and "0 \<le> py_real alpha * py_real (n_fin g)"
  shows "n_work g = PyInt \<lfloor>py_real alpha * py_real (n_fin g)\<rfloor>"
  using assms ir_grids_sizes[of c N ax alpha gs] ri_grids_sizes[of c N ax alpha gs]
  by (auto simp: size_int_floor)

text \<open>
  Claim C2 at a 2-D request with \<^verbatim>\<open>alpha = 1.5\<close> and grid tuples \<^verbatim>\<open>(1., 4)\<close> and
  \<^verbatim>\<open>(1., 3)\<close>. MODE_II sets the working size of axis 1 to the product
  \<^verbatim>\<open>alpha*Ny = 4.5\<close> (line 942), where MODE_IR has \<^verbatim>\<open>int(alpha*Ny) = 4\<close>, the
  floor of the product.
\<close>

theorem ii_working_size_is_not_floored:
  "map_sum id (\<lambda>gs. case gs of G2 g0 g1 \<Rightarrow> [n_work g0, n_work g1] | _ \<Rightarrow> [])
     (ii_grids default_config 2 [(PyFloat 1, PyInt 4), (PyFloat 1, PyInt 3)] (PyFloat (3 / 2))) =
     Inr [PyInt 6, PyFloat (9 / 2)] \<and>
   map_sum id (\<lambda>gs. case gs of G2 g0 g1 \<Rightarrow> [n_work g0, n_work g1] | _ \<Rightarrow> [])
     (ir_grids default_config 2 (Grid [(PyFloat 1, PyInt 4), (PyFloat 1, PyInt 3)]) (PyFloat (3 / 2))) =
     Inr [PyInt 6, PyInt 4] \<and>
   \<lfloor>3 / 2 * (3 :: real)\<rfloor> = 4"
  by (simp add: ii_grids_def ir_grids_def spec_at_def axis_block_def work_spacing_def py_div_def
        ethen_def size_int_def size_product_def default_config_def shifted_def centred_origin_def
        Let_def)

section \<open>The arguments of the gridding call\<close>

text \<open>
  Claim C9 at \<^verbatim>\<open>alpha = 1.5\<close> and \<^verbatim>\<open>W = 6\<close>. In the call of \<^verbatim>\<open>grid_2d\<close> the
  arguments at positions 9 and 10 (counted from 0) are \<^verbatim>\<open>alpha, W\<close> in MODE_IR and
  \<^verbatim>\<open>W, alpha\<close> in MODE_II; in the call of \<^verbatim>\<open>grid_3d\<close> the same holds at
  positions 13 and 14.
\<close>

theorem ii_grid_call_swaps_alpha_and_W:
  "map_sum id (\<lambda>c. (fst c, snd c ! 9, snd c ! 10))
     (ir_grid_call (Coords [1, 1]) 0 (G2 cell_1_4 cell_1_4) (PyFloat (3 / 2)) 6 [False, False]) =
     Inr (''grid_2d'', ANum (PyFloat (3 / 2)), ANum (PyInt 6)) \<and>
   map_sum id (\<lambda>c. (fst c, snd c ! 9, snd c ! 10))
     (ii_grid_call (Coords [1, 1]) 0 (G2 cell_1_4 cell_1_4) (PyFloat (3 / 2)) 6 [False, False]) =
     Inr (''grid_2d'', ANum (PyInt 6), ANum (PyFloat (3 / 2))) \<and>
   map_sum id (\<lambda>c. (fst c, snd c ! 13, snd c ! 14))
     (ir_grid_call (Coords [1, 1, 1]) 0 (G3 cell_1_4 cell_1_4 cell_1_4) (PyFloat (3 / 2)) 6
        [False, False, False]) =
     Inr (''grid_3d'', ANum (PyFloat (3 / 2)), ANum (PyInt 6)) \<and>
   map_sum id (\<lambda>c. (fst c, snd c ! 13, snd c ! 14))
     (ii_grid_call (Coords [1, 1, 1]) 0 (G3 cell_1_4 cell_1_4 cell_1_4) (PyFloat (3 / 2)) 6
        [False, False, False]) =
     Inr (''grid_3d'', ANum (PyInt 6), ANum (PyFloat (3 / 2)))"
  by (simp add: ir_grid_call_def ii_grid_call_def axis_arg_def bool_at_def ethen_def
        work_args_def cell_1_4_def)

section \<open>The direct-summation transforms\<close>

lemma psum_loop_sum:
  "length out_ax = length in_ax \<Longrightarrow>
   psum_loop acc in_ax out_ax j i = acc + phase_sum in_ax out_ax j i"
proof (induction in_ax arbitrary: acc out_ax)
  case Nil
  then show ?case by (simp add: phase_sum_def)
next
  case (Cons a in_ax)
  then obtain b bs where o: "out_ax = b # bs" and l: "length bs = length in_ax"
    by (cases out_ax) auto
  have "phase_sum (a # in_ax) (b # bs) j i = a ! j * b ! i + phase_sum in_ax bs j i"
    unfolding phase_sum_def by (simp add: sum.lessThan_Suc_shift del: sum.lessThan_Suc)
  with Cons.IH[OF l] o show ?case by simp
qed

lemma dft_val_loop_sum:
  "length out_ax = length in_ax \<Longrightarrow>
   dft_val_loop val j vs in_ax out_ax i =
     val + (\<Sum>t<length vs. vs ! t * cis (- 2 * pi * phase_sum in_ax out_ax (j + t) i))"
proof (induction vs arbitrary: val j)
  case Nil
  show ?case by simp
next
  case (Cons v vs)
  have c: "Complex (cos x) (sin x) = cis x" for x by (simp add: complex_eq_iff)
  show ?case
    using Cons.prems
    by (simp add: Cons.IH[OF Cons.prems] psum_loop_sum c sum.lessThan_Suc_shift Let_def
          add.assoc del: sum.lessThan_Suc)
qed

lemma idft_val_loop_sum:
  "length out_ax = length in_ax \<Longrightarrow>
   idft_val_loop val j vs in_ax out_ax i =
     val + (\<Sum>t<length vs. vs ! t * cis (2 * pi * phase_sum in_ax out_ax (j + t) i))"
proof (induction vs arbitrary: val j)
  case Nil
  show ?case by simp
next
  case (Cons v vs)
  have c: "Complex (cos x) (sin x) = cis x" for x by (simp add: complex_eq_iff)
  show ?case
    using Cons.prems
    by (simp add: Cons.IH[OF Cons.prems] psum_loop_sum c sum.lessThan_Suc_shift Let_def
          add.assoc del: sum.lessThan_Suc)
qed

lemma cnj_phase:
  "cnj (val + cnj v * Complex (cos (- x)) (sin (- x))) = cnj val + v * Complex (cos x) (sin x)"
  by (simp add: complex_eq_iff)

lemma idft_val_loop_cnj:
  "idft_val_loop (cnj val) j vs in_ax out_ax i = cnj (dft_val_loop val j (map cnj vs) in_ax out_ax i)"
proof (induction vs arbitrary: val j)
  case Nil
  show ?case by simp
next
  case (Cons v vs)
  let ?x = "2 * pi * psum_loop 0 in_ax out_ax j i"
  have "idft_val_loop (cnj val) j (v # vs) in_ax out_ax i =
        idft_val_loop (cnj val + v * Complex (cos ?x) (sin ?x)) (Suc j) vs in_ax out_ax i"
    by (simp add: Let_def)
  also have "cnj val + v * Complex (cos ?x) (sin ?x) =
             cnj (val + cnj v * Complex (cos (- ?x)) (sin (- ?x)))"
    by (simp only: cnj_phase)
  also have "idft_val_loop (cnj (val + cnj v * Complex (cos (- ?x)) (sin (- ?x)))) (Suc j) vs in_ax out_ax i =
             cnj (dft_val_loop (val + cnj v * Complex (cos (- ?x)) (sin (- ?x))) (Suc j) (map cnj vs) in_ax out_ax i)"
    by (rule Cons.IH)
  also have "dft_val_loop (val + cnj v * Complex (cos (- ?x)) (sin (- ?x))) (Suc j) (map cnj vs) in_ax out_ax i =
             dft_val_loop val j (map cnj (v # vs)) in_ax out_ax i"
    by (simp add: Let_def)
  finally show ?case .
qed

lemma idft_conj_dft:
  "idft in_vals in_ax out_ax = map_sum id (map cnj) (dft (map cnj in_vals) in_ax out_ax)"
proof -
  have z: "idft_val_loop 0 0 in_vals in_ax out_ax i =
           cnj (dft_val_loop 0 0 (map cnj in_vals) in_ax out_ax i)" for i
    using idft_val_loop_cnj[of 0 0 in_vals in_ax out_ax i] by simp
  show ?thesis
  proof (cases out_ax)
    case Nil
    then show ?thesis by (simp add: idft_def dft_def)
  next
    case (Cons b bs)
    show ?thesis
    proof (cases "check_axis_lengths in_ax out_ax (length in_vals) (length b)")
      case (Inl e)
      with Cons show ?thesis by (simp add: idft_def dft_def ethen_def Let_def)
    next
      case (Inr u)
      with Cons z show ?thesis by (simp add: idft_def dft_def ethen_def Let_def comp_def)
    qed
  qed
qed

text \<open>
  Claim C10. \<^verbatim>\<open>idft\<close> of the values is the complex conjugate of \<^verbatim>\<open>dft\<close> of the
  conjugated values (and raises what it raises). Each output of \<^verbatim>\<open>dft\<close> is the sum of
  the input values times \<open>exp(-2\<pi>i p)\<close> divided by the number of input values, each
  output of \<^verbatim>\<open>idft\<close> the same sum with \<open>exp(+2\<pi>i p)\<close> divided by the same number,
  where \<open>p\<close> is the sum over the axes of input coordinate times output coordinate.
\<close>

theorem idft_is_conjugated_dft:
  "idft in_vals in_ax out_ax = map_sum id (map cnj) (dft (map cnj in_vals) in_ax out_ax) \<and>
   (\<forall>out. dft in_vals in_ax out_ax = Inr out \<longrightarrow>
      (\<forall>i<length out. out ! i =
         (\<Sum>j<length in_vals. in_vals ! j * cis (- 2 * pi * phase_sum in_ax out_ax j i)) /
         of_nat (length in_vals))) \<and>
   (\<forall>out. idft in_vals in_ax out_ax = Inr out \<longrightarrow>
      (\<forall>i<length out. out ! i =
         (\<Sum>j<length in_vals. in_vals ! j * cis (2 * pi * phase_sum in_ax out_ax j i)) /
         of_nat (length in_vals)))"
proof (intro conjI allI impI)
  show "idft in_vals in_ax out_ax = map_sum id (map cnj) (dft (map cnj in_vals) in_ax out_ax)"
    by (rule idft_conj_dft)
next
  fix out i
  assume d: "dft in_vals in_ax out_ax = Inr out" and i: "i < length out"
  from d have l: "length out_ax = length in_ax" by (auto simp: dft_def split: if_splits)
  from d l obtain b bs where o: "out_ax = b # bs" by (cases out_ax) (auto simp: dft_def)
  from d l o have out: "out = map (\<lambda>v. v / of_nat (length in_vals))
        (map (\<lambda>i. dft_val_loop 0 0 in_vals in_ax out_ax i) [0..<length b])"
    by (auto simp: dft_def ethen_def Let_def split: if_splits sum.splits)
  with i have "i < length b" by simp
  with out show "out ! i =
         (\<Sum>j<length in_vals. in_vals ! j * cis (- 2 * pi * phase_sum in_ax out_ax j i)) /
         of_nat (length in_vals)"
    by (simp add: dft_val_loop_sum[OF l])
next
  fix out i
  assume d: "idft in_vals in_ax out_ax = Inr out" and i: "i < length out"
  from d have l: "length out_ax = length in_ax" by (auto simp: idft_def split: if_splits)
  from d l obtain b bs where o: "out_ax = b # bs" by (cases out_ax) (auto simp: idft_def)
  from d l o have out: "out = map (\<lambda>v. v / of_nat (length in_vals))
        (map (\<lambda>i. idft_val_loop 0 0 in_vals in_ax out_ax i) [0..<length b])"
    by (auto simp: idft_def ethen_def Let_def split: if_splits sum.splits)
  with i have "i < length b" by simp
  with out show "out ! i =
         (\<Sum>j<length in_vals. in_vals ! j * cis (2 * pi * phase_sum in_ax out_ax j i)) /
         of_nat (length in_vals)"
    by (simp add: idft_val_loop_sum[OF l])
qed

text \<open>Claim C10 at a concrete input.\<close>

theorem idft_is_conjugated_dft_witness:
  "idft [1, \<i>] [[0, 1 / 2]] [[0, 1]] = map_sum id (map cnj) (dft [1, - \<i>] [[0, 1 / 2]] [[0, 1]]) \<and>
   dft [1, \<i>] [[0, 1 / 2]] [[0, 1]] = Inr [(1 + \<i>) / 2, (1 - \<i>) / 2]"
proof -
  have d: "dft [1, \<i>] [[0, 1 / 2]] [[0, 1]] = Inr [(1 + \<i>) / 2, (1 - \<i>) / 2]"
    by (simp add: dft_def ethen_def Let_def complex_eq_iff upt_conv_Cons)
  from idft_is_conjugated_dft[of "[1, \<i>]" "[[0, 1 / 2]]" "[[0, 1]]"] d show ?thesis by simp
qed

end
